theory Spec2Isabelle
  imports Main
begin

section \<open>Values exchanged with the worker and the stores\<close>

text \<open>
  The gateway handles parsed JSON: worker responses, request bodies, audit payloads and the
  untyped (``Mixed'') parts of stored documents. \<open>JUndefined\<close> is the value of a property
  that is absent. A number is an integer of magnitude below \<open>2 ^ 53\<close>, which the JSON parser
  reads exactly and \<open>String\<close> prints digit by digit: the gateway never computes with
  numbers, it only tests them for truthiness, prints them and passes them on. A string is
  a text without the NUL character, which the relational store takes in no text.
\<close>

datatype jsval =
    JUndefined
  | JNull
  | JBool bool
  | JNum int
  | JStr string
  | JArr "jsval list"
  | JObj "(string \<times> jsval) list"

text \<open>A thrown JavaScript exception; only its \<open>message\<close> is ever read.\<close>

datatype js_error = JsError (message: string)

text \<open>JavaScript truthiness, as tested by \<open>!x\<close>, \<open>x || y\<close> and \<open>if (x)\<close>.\<close>

fun truthy :: "jsval \<Rightarrow> bool" where
  "truthy JUndefined = False"
| "truthy JNull = False"
| "truthy (JBool b) = b"
| "truthy (JNum n) = (n \<noteq> 0)"
| "truthy (JStr s) = (s \<noteq> [])"
| "truthy (JArr _) = True"
| "truthy (JObj _) = True"

text \<open>\<open>a || b\<close> and \<open>a ?? b\<close>.\<close>

definition js_or :: "jsval \<Rightarrow> jsval \<Rightarrow> jsval" where
  "js_or a b = (if truthy a then a else b)"

definition nullish :: "jsval \<Rightarrow> bool" where
  "nullish v = (v = JUndefined \<or> v = JNull)"

definition js_coalesce :: "jsval \<Rightarrow> jsval \<Rightarrow> jsval" where
  "js_coalesce a b = (if nullish a then b else a)"

text \<open>
  Reading a property of a value that is neither \<open>null\<close> nor \<open>undefined\<close>. The gateway
  reads only the names \<open>status\<close>, \<open>error\<close>, \<open>result\<close>, \<open>meta\<close>, \<open>mode\<close>, \<open>rules\<close>,
  \<open>rules_applied\<close>, \<open>summary\<close>, \<open>cleaned_file_path\<close> and the like, none of which is a
  built-in property of a number, boolean, string or array, so on those the read
  gives \<open>undefined\<close>. In an object parsed from JSON the last occurrence of a key wins.
\<close>

fun field :: "jsval \<Rightarrow> string \<Rightarrow> jsval" where
  "field (JObj kvs) k = (case map_of (rev kvs) k of Some v \<Rightarrow> v | None \<Rightarrow> JUndefined)"
| "field _ k = JUndefined"

text \<open>\<open>v.k\<close>: a TypeError on \<open>null\<close> and \<open>undefined\<close> (the message is V8's).\<close>

definition js_prop :: "jsval \<Rightarrow> string \<Rightarrow> js_error + jsval" where
  "js_prop v k =
     (if v = JUndefined then
        Inl (JsError (''Cannot read properties of undefined (reading '' @ [CHR 0x27] @ k @ [CHR 0x27] @ '')''))
      else if v = JNull then
        Inl (JsError (''Cannot read properties of null (reading '' @ [CHR 0x27] @ k @ [CHR 0x27] @ '')''))
      else Inr (field v k))"

text \<open>\<open>v?.k\<close>: \<open>undefined\<close> on \<open>null\<close> and \<open>undefined\<close>, never a throw.\<close>

definition opt_prop :: "jsval \<Rightarrow> string \<Rightarrow> jsval" where
  "opt_prop v k = (if nullish v then JUndefined else field v k)"

text \<open>
  \<open>for (const r of v)\<close>: an array yields its elements and a string its characters; any other
  value is not iterable (the message is V8's for \<open>data.rules_applied\<close>).
\<close>

definition iterate :: "jsval \<Rightarrow> js_error + jsval list" where
  "iterate v =
     (case v of
        JArr xs \<Rightarrow> Inr xs
      | JStr s \<Rightarrow> Inr (map (\<lambda>c. JStr [c]) s)
      | _ \<Rightarrow> Inl (JsError ''data.rules_applied is not iterable''))"

text \<open>Decimal digits of a number, as a template literal or \<open>String(n)\<close> prints them.\<close>

function show_nat :: "nat \<Rightarrow> string" where
  "show_nat n =
     (if n < 10 then [''0123456789'' ! n]
      else show_nat (n div 10) @ [''0123456789'' ! (n mod 10)])"
  by pat_completeness auto
termination
  by (relation "measure id") auto

definition show_int :: "int \<Rightarrow> string" where
  "show_int i = (if i < 0 then CHR ''-'' # show_nat (nat (- i)) else show_nat (nat i))"

fun join_comma :: "string list \<Rightarrow> string" where
  "join_comma [] = []"
| "join_comma [s] = s"
| "join_comma (s # t # ss) = s @ '','' @ join_comma (t # ss)"

text \<open>
  \<open>String(v)\<close>, which \<open>new Error(v)\<close> applies to its argument: an array prints its
  elements separated by commas, with \<open>null\<close> and \<open>undefined\<close> elements empty.
\<close>

fun to_str :: "jsval \<Rightarrow> string" where
  "to_str JUndefined = ''undefined''"
| "to_str JNull = ''null''"
| "to_str (JBool b) = (if b then ''true'' else ''false'')"
| "to_str (JNum n) = show_int n"
| "to_str (JStr s) = s"
| "to_str (JArr xs) = join_comma (map (\<lambda>x. if nullish x then [] else to_str x) xs)"
| "to_str (JObj kvs) = ''[object Object]''"

subsection \<open>Casting by the document store's schema\<close>

text \<open>
  Mongoose's cast of a value to a \<open>String\<close> path: \<open>null\<close> and \<open>undefined\<close> stay, a string,
  number or boolean becomes its text, an object with a non-empty string \<open>_id\<close> becomes that
  id, and any other object and every array cannot be cast (\<open>None\<close>).
\<close>

definition castString :: "jsval \<Rightarrow> jsval option" where
  "castString v =
     (case v of
        JUndefined \<Rightarrow> Some JUndefined
      | JNull \<Rightarrow> Some JNull
      | JBool b \<Rightarrow> Some (JStr (to_str v))
      | JNum n \<Rightarrow> Some (JStr (to_str v))
      | JStr s \<Rightarrow> Some (JStr s)
      | JArr xs \<Rightarrow> None
      | JObj kvs \<Rightarrow>
          (case field v ''_id'' of
             JStr i \<Rightarrow> if i \<noteq> [] then Some (JStr i) else None
           | _ \<Rightarrow> None))"

text \<open>
  The CastError that an update throws for a value that cannot be cast. The runtime's
  message also renders the value; that rendering is left out here.
\<close>

definition cast_error :: "jsval \<Rightarrow> string \<Rightarrow> js_error" where
  "cast_error v p =
     JsError (''Cast to string failed for value (type ''
              @ (case v of JArr xs \<Rightarrow> ''Array'' | _ \<Rightarrow> ''Object'')
              @ '') at path '' @ [CHR 0x22] @ p @ [CHR 0x22])"

text \<open>
  The cast to an array path of \<open>Mixed\<close> elements: an array stays, \<open>undefined\<close> leaves the
  path at its default (the empty array), \<open>null\<close> stays, and any other value is wrapped
  into a one-element array.
\<close>

definition castMixedArray :: "jsval \<Rightarrow> jsval" where
  "castMixedArray v =
     (case v of
        JArr xs \<Rightarrow> JArr xs
      | JUndefined \<Rightarrow> JArr []
      | JNull \<Rightarrow> JNull
      | _ \<Rightarrow> JArr [v])"

subsection \<open>JSON text\<close>

text \<open>
  Whether a text is one JSON value that the relational store's \<open>jsonb\<close> input takes: the
  grammar of RFC 8259, without the escape \<open>\u0000\<close>, and with every escaped surrogate in
  a pair of a high one followed by a low one. Each function returns the input that is left
  after what it has read, or \<open>None\<close>.
\<close>

definition ws_char :: "char \<Rightarrow> bool" where
  "ws_char c = (c = CHR '' '' \<or> c = CHR 0x09 \<or> c = CHR 0x0A \<or> c = CHR 0x0D)"

definition skip_ws :: "string \<Rightarrow> string" where
  "skip_ws s = dropWhile ws_char s"

definition digit_char :: "char \<Rightarrow> bool" where
  "digit_char c = (c \<in> set ''0123456789'')"

definition hex_char :: "char \<Rightarrow> bool" where
  "hex_char c = (c \<in> set ''0123456789abcdefABCDEF'')"

text \<open>The first two hex digits of an escaped high (D800 to DBFF) or low (DC00 to DFFF) surrogate.\<close>

definition high_surrogate :: "char \<Rightarrow> char \<Rightarrow> bool" where
  "high_surrogate h1 h2 = ((h1 = CHR ''d'' \<or> h1 = CHR ''D'') \<and> h2 \<in> set ''89abAB'')"

definition low_surrogate :: "char \<Rightarrow> char \<Rightarrow> bool" where
  "low_surrogate h1 h2 = ((h1 = CHR ''d'' \<or> h1 = CHR ''D'') \<and> h2 \<in> set ''cdefCDEF'')"

text \<open>The characters of a string after its opening quote, through the closing quote.\<close>

fun json_string_rest :: "string \<Rightarrow> string option" where
  "json_string_rest [] = None"
| "json_string_rest (c # cs) =
     (if c = CHR 0x22 then Some cs
      else if c = CHR 0x5C then
        (case cs of
           [] \<Rightarrow> None
         | e # es \<Rightarrow>
             if e \<in> set [CHR 0x22, CHR 0x5C, CHR ''/'', CHR ''b'', CHR ''f'', CHR ''n'', CHR ''r'', CHR ''t'']
             then json_string_rest es
             else if e = CHR ''u'' then
               (case es of
                  h1 # h2 # h3 # h4 # r \<Rightarrow>
                    if \<not> (hex_char h1 \<and> hex_char h2 \<and> hex_char h3 \<and> hex_char h4) then None
                    else if [h1, h2, h3, h4] = ''0000'' then None
                    else if low_surrogate h1 h2 then None
                    else if high_surrogate h1 h2 then
                      (case r of
                         b # u # l1 # l2 # l3 # l4 # r' \<Rightarrow>
                           if b = CHR 0x5C \<and> u = CHR ''u'' \<and> low_surrogate l1 l2
                              \<and> hex_char l3 \<and> hex_char l4
                           then json_string_rest r' else None
                       | _ \<Rightarrow> None)
                    else json_string_rest r
                | _ \<Rightarrow> None)
             else None)
      else if of_char c < (32 :: nat) then None
      else json_string_rest cs)"

text \<open>An exponent, if there is one, and a fraction, if there is one.\<close>

definition json_exp :: "string \<Rightarrow> string option" where
  "json_exp s =
     (case s of
        [] \<Rightarrow> Some []
      | c # r \<Rightarrow>
          if c = CHR ''e'' \<or> c = CHR ''E'' then
            (let r1 = (case r of [] \<Rightarrow> r
                       | x # r' \<Rightarrow> if x = CHR ''+'' \<or> x = CHR ''-'' then r' else r)
             in if takeWhile digit_char r1 = [] then None else Some (dropWhile digit_char r1))
          else Some s)"

definition json_frac :: "string \<Rightarrow> string option" where
  "json_frac s =
     (case s of
        [] \<Rightarrow> Some []
      | c # r \<Rightarrow>
          if c = CHR ''.'' then
            (if takeWhile digit_char r = [] then None else json_exp (dropWhile digit_char r))
          else json_exp s)"

definition json_number :: "string \<Rightarrow> string option" where
  "json_number s =
     (let s1 = (case s of [] \<Rightarrow> s | c # r \<Rightarrow> if c = CHR ''-'' then r else s)
      in case s1 of
           [] \<Rightarrow> None
         | d # r \<Rightarrow>
             if \<not> digit_char d then None
             else if d = CHR ''0'' then json_frac r
             else json_frac (dropWhile digit_char r))"

text \<open>
  A value, the rest of an array after a \<open>[\<close> or a comma, and the rest of an object after
  a \<open>{\<close> or a comma. The first argument bounds the number of nested calls.
\<close>

fun json_value :: "nat \<Rightarrow> string \<Rightarrow> string option"
  and json_elements :: "nat \<Rightarrow> string \<Rightarrow> string option"
  and json_members :: "nat \<Rightarrow> string \<Rightarrow> string option" where
  "json_value 0 s = None"
| "json_value (Suc n) s =
     (case skip_ws s of
        [] \<Rightarrow> None
      | c # r \<Rightarrow>
          if c = CHR ''{'' then
            (case skip_ws r of
               [] \<Rightarrow> None
             | x # r' \<Rightarrow> if x = CHR ''}'' then Some r' else json_members n r)
          else if c = CHR ''['' then
            (case skip_ws r of
               [] \<Rightarrow> None
             | x # r' \<Rightarrow> if x = CHR '']'' then Some r' else json_elements n r)
          else if c = CHR 0x22 then json_string_rest r
          else if take 4 (c # r) = ''true'' then Some (drop 4 (c # r))
          else if take 5 (c # r) = ''false'' then Some (drop 5 (c # r))
          else if take 4 (c # r) = ''null'' then Some (drop 4 (c # r))
          else json_number (c # r))"
| "json_elements 0 s = None"
| "json_elements (Suc n) s =
     (case json_value n s of
        None \<Rightarrow> None
      | Some r \<Rightarrow>
          (case skip_ws r of
             [] \<Rightarrow> None
           | x # r' \<Rightarrow>
               if x = CHR '','' then json_elements n r'
               else if x = CHR '']'' then Some r'
               else None))"
| "json_members 0 s = None"
| "json_members (Suc n) s =
     (case skip_ws s of
        [] \<Rightarrow> None
      | q # r \<Rightarrow>
          if q \<noteq> CHR 0x22 then None
          else
            (case json_string_rest r of
               None \<Rightarrow> None
             | Some r1 \<Rightarrow>
                 (case skip_ws r1 of
                    [] \<Rightarrow> None
                  | c # r2 \<Rightarrow>
                      if c \<noteq> CHR '':'' then None
                      else
                        (case json_value n r2 of
                           None \<Rightarrow> None
                         | Some r3 \<Rightarrow>
                             (case skip_ws r3 of
                                [] \<Rightarrow> None
                              | x # r4 \<Rightarrow>
                                  if x = CHR '','' then json_members n r4
                                  else if x = CHR ''}'' then Some r4
                                  else None)))))"

definition is_json_text :: "string \<Rightarrow> bool" where
  "is_json_text s =
     (case json_value (2 * length s + 2) s of
        None \<Rightarrow> False
      | Some r \<Rightarrow> skip_ws r = [])"

section \<open>Documents and stores\<close>

datatype status = Starting | Running | Completed | Failed | Cleaning | Cleaned | Unknown

datatype job_mode = Normal | Large

record job =
  j_id :: string
  status :: status
  j_mode :: job_mode
  file_name :: string
  file_path :: "string option"
  cleaned_file_path :: jsval
  user_id :: string

record analysis_result =
  ar_job_id :: string
  result :: jsval
  analysis_type :: jsval

record cleaning_result =
  cr_job_id :: string
  cr_mode :: jsval
  rules_applied :: jsval
  summary :: jsval

record audit_event =
  ev_job_id :: string
  event_type :: string
  payload :: jsval

text \<open>
  The document store keeps one collection per model, in insertion order; the relational
  store keeps the append-only \<open>audit_log\<close> table; \<open>files\<close> are the paths present on disk.
  A write fails where the store refuses the value written (a cast that fails, a payload
  that is not JSON); outages of the stores are outside the model. The fields that the
  document store adds on its own (\<open>_id\<close> of a result, \<open>__v\<close>, the two dates) are not
  modelled. The \<open>payload\<close> of an audit row is the value passed to the insert.
\<close>

record user_doc =
  ud_id :: string
  email :: string
  password_hash :: string
  ud_role :: string

record state =
  jobs :: "job list"
  analysis_results :: "analysis_result list"
  cleaning_results :: "cleaning_result list"
  users :: "user_doc list"
  audit_log :: "audit_event list"
  files :: "string set"

text \<open>
  \<open>Model.replaceOne(filter, doc, { upsert: true })\<close>: the first document that matches the
  filter is replaced by \<open>doc\<close>; when none matches, \<open>doc\<close> is inserted.
\<close>

fun replaceOne :: "('d \<Rightarrow> bool) \<Rightarrow> 'd \<Rightarrow> 'd list \<Rightarrow> 'd list" where
  "replaceOne p d [] = [d]"
| "replaceOne p d (x # xs) = (if p x then d # xs else x # replaceOne p d xs)"

text \<open>\<open>Model.updateOne(filter, { $set: ... })\<close> without upsert: the first match is updated.\<close>

fun updateOne :: "('d \<Rightarrow> bool) \<Rightarrow> ('d \<Rightarrow> 'd) \<Rightarrow> 'd list \<Rightarrow> 'd list" where
  "updateOne p f [] = []"
| "updateOne p f (x # xs) = (if p x then f x # xs else x # updateOne p f xs)"

text \<open>\<open>Job.findById(jobId)\<close>.\<close>

definition findById :: "string \<Rightarrow> job list \<Rightarrow> job option" where
  "findById jobId js = find (\<lambda>j. j_id j = jobId) js"

text \<open>\<open>Job.updateOne({ _id: jobId }, { $set: { status: st } })\<close>.\<close>

definition set_status :: "string \<Rightarrow> status \<Rightarrow> state \<Rightarrow> state" where
  "set_status jobId st s =
     s\<lparr>jobs := updateOne (\<lambda>j. j_id j = jobId) (\<lambda>j. j\<lparr>status := st\<rparr>) (jobs s)\<rparr>"

text \<open>
  What the insert makes of the payload parameter. The driver sends an object as its JSON
  text, a number or a boolean as its text, \<open>null\<close> as SQL NULL, an array as an array
  literal in braces, and a string as it is; the \<open>jsonb\<close> column takes the text when it is
  JSON. So an object, a number, a boolean and \<open>null\<close> are taken, the empty array is taken
  (its literal is \<open>{}\<close>), a non-empty array is refused, and a string is taken only when it
  spells a JSON value.
\<close>

definition jsonb_accepts :: "jsval \<Rightarrow> bool" where
  "jsonb_accepts pl =
     (case pl of
        JStr s \<Rightarrow> is_json_text s
      | JArr xs \<Rightarrow> xs = []
      | _ \<Rightarrow> True)"

text \<open>One more row in the audit table.\<close>

definition logged :: "audit_event \<Rightarrow> state \<Rightarrow> state" where
  "logged e s = s\<lparr>audit_log := audit_log s @ [e]\<rparr>"

text \<open>
  \<open>auditLog(jobId, eventType, payload = {})\<close> of \<open>db/postgres\<close>: one row is appended, or
  the insert throws the store's error and appends nothing; the default applies when the
  payload passed is \<open>undefined\<close>. A call returns what it threw, if it did, and the state
  it has reached.
\<close>

definition auditLog :: "string \<Rightarrow> string \<Rightarrow> jsval \<Rightarrow> state \<Rightarrow> (js_error + unit) \<times> state" where
  "auditLog jobId eventType pl s =
     (let p = (if pl = JUndefined then JObj [] else pl)
      in if jsonb_accepts p then
           (Inr (), logged \<lparr> ev_job_id = jobId, event_type = eventType, payload = p \<rparr> s)
         else (Inl (JsError ''invalid input syntax for type json''), s))"

text \<open>\<open>!job.file_path\<close> on an optional string: absent and empty are falsy.\<close>

definition has_path :: "string option \<Rightarrow> bool" where
  "has_path p = (case p of None \<Rightarrow> False | Some x \<Rightarrow> x \<noteq> [])"

definition path_val :: "string option \<Rightarrow> jsval" where
  "path_val p = (case p of None \<Rightarrow> JUndefined | Some x \<Rightarrow> JStr x)"

definition mode_str :: "job_mode \<Rightarrow> string" where
  "mode_str m = (case m of Normal \<Rightarrow> ''normal'' | Large \<Rightarrow> ''large'')"

definition status_str :: "status \<Rightarrow> string" where
  "status_str st =
     (case st of Starting \<Rightarrow> ''starting'' | Running \<Rightarrow> ''running'' | Completed \<Rightarrow> ''completed''
      | Failed \<Rightarrow> ''failed'' | Cleaning \<Rightarrow> ''cleaning'' | Cleaned \<Rightarrow> ''cleaned''
      | Unknown \<Rightarrow> ''unknown'')"

section \<open>The worker call\<close>

text \<open>
  What the external worker does with one request: it never answers; or the connection
  fails after some milliseconds with the runtime's message; or the response headers arrive
  after some milliseconds with an HTTP status, and the body takes some more milliseconds,
  after which \<open>response.json()\<close> either rejects (the read failed or was ended by the
  runtime, or the text is not JSON; with the message) or gives the parsed value. A body is
  finite, so reading it comes to an end. The worker is any function of the request's path
  and body.
\<close>

datatype fetch_behaviour =
    NoAnswer
  | NetworkFailure nat string
  | Answer nat nat nat "string + jsval"

type_synonym worker = "string \<Rightarrow> jsval \<Rightarrow> fetch_behaviour"

definition ANALYSIS_TIMEOUT_MS :: nat where
  "ANALYSIS_TIMEOUT_MS = 10 * 60 * 1000"

definition CLEANING_TIMEOUT_MS :: nat where
  "CLEANING_TIMEOUT_MS = 10 * 60 * 1000"

text \<open>
  The runtime's own limit on the wait for response headers (the default of its HTTP
  client; the gateway sets none), and the message \<open>fetch\<close> rejects with when it is reached,
  which is also its message for a refused connection.
\<close>

definition HEADERS_TIMEOUT_MS :: nat where
  "HEADERS_TIMEOUT_MS = 300 * 1000"

definition fetch_failed_message :: string where
  "fetch_failed_message = ''fetch failed''"

text \<open>The message of the AbortError that \<open>fetch\<close> rejects with when its signal aborts.\<close>

definition abort_message :: string where
  "abort_message = ''This operation was aborted''"

text \<open>
  \<open>fetch(url, { signal })\<close> under \<open>setTimeout(() => controller.abort(), t)\<close>, with
  \<open>clearTimeout\<close> as soon as \<open>fetch\<close> settles: the wait for the headers is cut by the
  timer or by the runtime's limit, whichever comes first; the body is read after the timer
  has been cleared, so its duration is not consulted.
\<close>

definition fetch_with_timeout :: "nat \<Rightarrow> fetch_behaviour \<Rightarrow> js_error + (nat \<times> (string + jsval))" where
  "fetch_with_timeout t b =
     (let cut = (if t \<le> HEADERS_TIMEOUT_MS then JsError abort_message
                 else JsError fetch_failed_message);
          limit = min t HEADERS_TIMEOUT_MS
      in case b of
           NoAnswer \<Rightarrow> Inl cut
         | NetworkFailure ms msg \<Rightarrow> if ms < limit then Inl (JsError msg) else Inl cut
         | Answer ms code body_ms body \<Rightarrow> if ms < limit then Inr (code, body) else Inl cut)"

text \<open>\<open>response.ok\<close>.\<close>

definition response_ok :: "nat \<Rightarrow> bool" where
  "response_ok code = (200 \<le> code \<and> code \<le> 299)"

section \<open>The analysis service\<close>

definition analysis_request :: "string \<Rightarrow> job \<Rightarrow> jsval" where
  "analysis_request jobId job =
     JObj [(''job_id'', JStr jobId), (''file_path'', path_val (file_path job)),
           (''mode'', JStr (mode_str (j_mode job))), (''options'', JObj [])]"

text \<open>
  The replacement passed to \<open>AnalysisResult.replaceOne\<close>, as the document that Mongoose
  builds from it: \<open>result\<close> is a \<open>Mixed\<close> path and takes the value as it is;
  \<open>analysis_type\<close> is a \<open>String\<close> path, and a value that cannot be cast is left out.
\<close>

definition analysis_doc :: "string \<Rightarrow> jsval \<Rightarrow> analysis_result" where
  "analysis_doc jobId data =
     \<lparr> ar_job_id = jobId,
       result = field data ''result'',
       analysis_type =
         (case castString
                 (js_or (opt_prop (opt_prop (field data ''result'') ''meta'') ''analysis_type'')
                        (JStr ''in-memory'')) of
            Some v \<Rightarrow> v
          | None \<Rightarrow> JUndefined) \<rparr>"

definition upsert_analysis :: "string \<Rightarrow> jsval \<Rightarrow> analysis_result list \<Rightarrow> analysis_result list" where
  "upsert_analysis jobId data rs =
     replaceOne (\<lambda>r. ar_job_id r = jobId) (analysis_doc jobId data) rs"

text \<open>
  \<open>runAnalysis\<close>, lines 18 to 22: the lookup, the write of \<open>running\<close>, the start event.
  The result is the job read, or what was thrown, with the state reached.
\<close>

definition runAnalysis_start :: "string \<Rightarrow> state \<Rightarrow> (js_error + job) \<times> state" where
  "runAnalysis_start jobId s =
     (case findById jobId (jobs s) of
        None \<Rightarrow> (Inl (JsError ''Job/file not found''), s)
      | Some job \<Rightarrow>
          if \<not> has_path (file_path job) then (Inl (JsError ''Job/file not found''), s)
          else
            (case auditLog jobId ''ANALYSIS_STARTED'' (JObj []) (set_status jobId Running s) of
               (Inl e, s1) \<Rightarrow> (Inl e, s1)
             | (Inr u, s1) \<Rightarrow> (Inr job, s1)))"

text \<open>The body of the \<open>try\<close> block: the state it has reached, and what it threw if it did.\<close>

definition analysis_try :: "worker \<Rightarrow> string \<Rightarrow> job \<Rightarrow> state \<Rightarrow> (js_error + unit) \<times> state" where
  "analysis_try w jobId job s =
     (case fetch_with_timeout ANALYSIS_TIMEOUT_MS (w ''/internal/analyze'' (analysis_request jobId job)) of
        Inl e \<Rightarrow> (Inl e, s)
      | Inr (code, body) \<Rightarrow>
          if \<not> response_ok code then
            (Inl (JsError (''Python service returned HTTP '' @ show_nat code)), s)
          else
            (case body of
               Inl msg \<Rightarrow> (Inl (JsError msg), s)
             | Inr data \<Rightarrow>
                 (case js_prop data ''status'' of
                    Inl e \<Rightarrow> (Inl e, s)
                  | Inr st \<Rightarrow>
                      if st = JStr ''failed'' then
                        (Inl (JsError (to_str (js_or (field data ''error'')
                                                     (JStr ''Python analysis failed'')))), s)
                      else
                        let s1 = s\<lparr>analysis_results :=
                                     upsert_analysis jobId data (analysis_results s)\<rparr>;
                            s2 = set_status jobId Completed s1;
                            meta = opt_prop (field data ''result'') ''meta''
                        in auditLog jobId ''ANALYSIS_COMPLETED''
                             (JObj [(''analysis_type'', opt_prop meta ''analysis_type''),
                                    (''duration_ms'', opt_prop meta ''duration_ms'')]) s2)))"

text \<open>
  Lines 24 to 77: the \<open>try\<close> block and its \<open>catch\<close>, which writes \<open>failed\<close>, logs and
  rethrows; a throw inside the \<open>catch\<close> replaces the error it was handling.
\<close>

definition runAnalysis_finish :: "worker \<Rightarrow> string \<Rightarrow> job \<Rightarrow> state \<Rightarrow> (js_error + unit) \<times> state" where
  "runAnalysis_finish w jobId job s =
     (case analysis_try w jobId job s of
        (Inr u, s') \<Rightarrow> (Inr u, s')
      | (Inl err, s') \<Rightarrow>
          (case auditLog jobId ''ANALYSIS_FAILED'' (JObj [(''error'', JStr (message err))])
                  (set_status jobId Failed s') of
             (Inl e2, s'') \<Rightarrow> (Inl e2, s'')
           | (Inr u, s'') \<Rightarrow> (Inl err, s'')))"

definition runAnalysis :: "worker \<Rightarrow> string \<Rightarrow> state \<Rightarrow> (js_error + unit) \<times> state" where
  "runAnalysis w jobId s =
     (case runAnalysis_start jobId s of
        (Inl e, s1) \<Rightarrow> (Inl e, s1)
      | (Inr job, s1) \<Rightarrow> runAnalysis_finish w jobId job s1)"

section \<open>The cleaning service\<close>

definition cleaning_request :: "string \<Rightarrow> job \<Rightarrow> jsval \<Rightarrow> jsval" where
  "cleaning_request jobId job cleaningOptions =
     JObj [(''job_id'', JStr jobId), (''file_path'', path_val (file_path job)),
           (''mode'', js_or (field cleaningOptions ''mode'') (JStr ''auto'')),
           (''rules'', js_or (field cleaningOptions ''rules'') (JObj [])),
           (''options'', JObj [])]"

text \<open>
  The replacement passed to \<open>CleaningResult.replaceOne\<close>, as the document that Mongoose
  builds from it: \<open>mode\<close> is a \<open>String\<close> path with the default \<open>auto\<close>, which stays when
  the value cannot be cast; \<open>rules_applied\<close> is an array path of \<open>Mixed\<close> elements;
  \<open>summary\<close> is a \<open>Mixed\<close> path.
\<close>

definition cleaning_doc :: "string \<Rightarrow> jsval \<Rightarrow> jsval \<Rightarrow> cleaning_result" where
  "cleaning_doc jobId cleaningOptions data =
     \<lparr> cr_job_id = jobId,
       cr_mode =
         (case castString (js_or (field data ''mode'')
                             (js_or (field cleaningOptions ''mode'') (JStr ''auto''))) of
            Some v \<Rightarrow> v
          | None \<Rightarrow> JStr ''auto''),
       rules_applied = castMixedArray (field data ''rules_applied''),
       summary = field data ''summary'' \<rparr>"

definition upsert_cleaning :: "string \<Rightarrow> jsval \<Rightarrow> jsval \<Rightarrow> cleaning_result list \<Rightarrow> cleaning_result list" where
  "upsert_cleaning jobId cleaningOptions data rs =
     replaceOne (\<lambda>r. cr_job_id r = jobId) (cleaning_doc jobId cleaningOptions data) rs"

text \<open>
  \<open>Job.updateOne({ _id: jobId }, { $set: { cleaned_file_path: v, status: 'cleaned' } })\<close>
  for a value \<open>v\<close> already cast: an \<open>undefined\<close> key is dropped from the update, so the
  stored path stays.
\<close>

definition set_cleaned :: "string \<Rightarrow> jsval \<Rightarrow> state \<Rightarrow> state" where
  "set_cleaned jobId v s =
     s\<lparr>jobs := updateOne (\<lambda>j. j_id j = jobId)
                 (\<lambda>j. j\<lparr>cleaned_file_path := (if v = JUndefined then cleaned_file_path j else v),
                        status := Cleaned\<rparr>)
                 (jobs s)\<rparr>"

text \<open>
  \<open>for (const r of data.rules_applied) await auditLog(jobId, 'RULE_APPLIED', r)\<close>: the loop
  ends at the first insert that throws; the rows before it stay.
\<close>

fun log_rules :: "string \<Rightarrow> jsval list \<Rightarrow> state \<Rightarrow> (js_error + unit) \<times> state" where
  "log_rules jobId [] s = (Inr (), s)"
| "log_rules jobId (r # rs) s =
     (case auditLog jobId ''RULE_APPLIED'' r s of
        (Inl e, s') \<Rightarrow> (Inl e, s')
      | (Inr u, s') \<Rightarrow> log_rules jobId rs s')"

definition runCleaning_start :: "string \<Rightarrow> jsval \<Rightarrow> state \<Rightarrow> (js_error + job) \<times> state" where
  "runCleaning_start jobId cleaningOptions s =
     (case findById jobId (jobs s) of
        None \<Rightarrow> (Inl (JsError ''Job/file not found''), s)
      | Some job \<Rightarrow>
          if \<not> has_path (file_path job) then (Inl (JsError ''Job/file not found''), s)
          else
            (case auditLog jobId ''CLEANING_STARTED''
                    (JObj [(''mode'', field cleaningOptions ''mode'')])
                    (set_status jobId Cleaning s) of
               (Inl e, s1) \<Rightarrow> (Inl e, s1)
             | (Inr u, s1) \<Rightarrow> (Inr job, s1)))"

definition cleaning_try :: "worker \<Rightarrow> string \<Rightarrow> jsval \<Rightarrow> job \<Rightarrow> state \<Rightarrow> (js_error + unit) \<times> state" where
  "cleaning_try w jobId cleaningOptions job s =
     (case fetch_with_timeout CLEANING_TIMEOUT_MS
             (w ''/internal/clean'' (cleaning_request jobId job cleaningOptions)) of
        Inl e \<Rightarrow> (Inl e, s)
      | Inr (code, body) \<Rightarrow>
          if \<not> response_ok code then
            (Inl (JsError (''Python service returned HTTP '' @ show_nat code)), s)
          else
            (case body of
               Inl msg \<Rightarrow> (Inl (JsError msg), s)
             | Inr data \<Rightarrow>
                 (case js_prop data ''status'' of
                    Inl e \<Rightarrow> (Inl e, s)
                  | Inr st \<Rightarrow>
                      if st = JStr ''failed'' then
                        (Inl (JsError (to_str (js_or (field data ''error'')
                                                     (JStr ''Python cleaning failed'')))), s)
                      else
                        let s1 = s\<lparr>cleaning_results :=
                                     upsert_cleaning jobId cleaningOptions data (cleaning_results s)\<rparr>
                        in (case castString (field data ''cleaned_file_path'') of
                              None \<Rightarrow>
                                (Inl (cast_error (field data ''cleaned_file_path'') ''cleaned_file_path''),
                                 s1)
                            | Some v \<Rightarrow>
                                let s2 = set_cleaned jobId v s1
                                in (case iterate (field data ''rules_applied'') of
                                      Inl e \<Rightarrow> (Inl e, s2)
                                    | Inr rs \<Rightarrow>
                                        (case log_rules jobId rs s2 of
                                           (Inl e, s3) \<Rightarrow> (Inl e, s3)
                                         | (Inr u, s3) \<Rightarrow>
                                             (case js_prop (field data ''summary'') ''rows_removed'' of
                                                Inl e \<Rightarrow> (Inl e, s3)
                                              | Inr removed \<Rightarrow>
                                                  auditLog jobId ''CLEANING_COMPLETED''
                                                    (JObj [(''cleaned_file_path'',
                                                            field data ''cleaned_file_path''),
                                                           (''rows_removed'', removed)]) s3)))))))"

text \<open>The \<open>try\<close> block and its \<open>catch\<close>, which writes \<open>completed\<close>, logs and rethrows.\<close>

definition runCleaning_finish :: "worker \<Rightarrow> string \<Rightarrow> jsval \<Rightarrow> job \<Rightarrow> state \<Rightarrow> (js_error + unit) \<times> state" where
  "runCleaning_finish w jobId cleaningOptions job s =
     (case cleaning_try w jobId cleaningOptions job s of
        (Inr u, s') \<Rightarrow> (Inr u, s')
      | (Inl err, s') \<Rightarrow>
          (case auditLog jobId ''ERROR''
                  (JObj [(''phase'', JStr ''cleaning''), (''error'', JStr (message err))])
                  (set_status jobId Completed s') of
             (Inl e2, s'') \<Rightarrow> (Inl e2, s'')
           | (Inr u, s'') \<Rightarrow> (Inl err, s'')))"

definition runCleaning :: "worker \<Rightarrow> string \<Rightarrow> jsval \<Rightarrow> state \<Rightarrow> (js_error + unit) \<times> state" where
  "runCleaning w jobId cleaningOptions s =
     (case runCleaning_start jobId cleaningOptions s of
        (Inl e, s1) \<Rightarrow> (Inl e, s1)
      | (Inr job, s1) \<Rightarrow> runCleaning_finish w jobId cleaningOptions job s1)"

section \<open>Requests and responses\<close>

text \<open>The authenticated subject that the \<open>auth\<close> middleware attaches to a request.\<close>

record user =
  u_id :: string
  role :: string

text \<open>
  A response is JSON with a status code, JSON together with the identity cookie, or the
  cleaned file streamed as an attachment (its path and the download name).
\<close>

datatype response =
    Json nat jsval
  | JsonWithCookie nat jsval string
  | CsvAttachment string string

fun response_code :: "response \<Rightarrow> nat" where
  "response_code (Json c _) = c"
| "response_code (JsonWithCookie c _ _) = c"
| "response_code (CsvAttachment _ _) = 200"

text \<open>\<open>next(err)\<close>: the application's error handler.\<close>

definition next_err :: "js_error \<Rightarrow> response" where
  "next_err e =
     Json 500 (JObj [(''error'', JStr ''Internal server error''), (''details'', JStr (message e))])"

text \<open>
  A background task that a handler starts without awaiting it. The handler's own writes
  and the task's writes interleave freely; a handler here returns its response, the state
  after its own writes, and the tasks it has started, which run as \<open>runAnalysis\<close> and
  \<open>runCleaning\<close> above.
\<close>

datatype task = AnalysisTask string | CleaningTask string jsval

section \<open>Upload\<close>

record upload_file =
  originalname :: string
  path :: string
  size :: nat

text \<open>
  \<open>POST /upload\<close>. The fresh job id is \<open>uuid()\<close>, given here as an argument; the upload
  middleware has written the file to disk before the handler runs; \<open>Job.create\<close> rejects
  an id that is already present. Whatever the handler throws goes to \<open>next(err)\<close>.
\<close>

definition upload :: "user \<Rightarrow> string \<Rightarrow> upload_file option \<Rightarrow> state \<Rightarrow> response \<times> state" where
  "upload u jobId file s =
     (case file of
        None \<Rightarrow> (Json 400 (JObj [(''error'', JStr ''No file uploaded'')]), s)
      | Some f \<Rightarrow>
          let s0 = s\<lparr>files := insert (path f) (files s)\<rparr>;
              mode = (if size f > 50 * 1024 * 1024 then Large else Normal)
          in if jobId \<in> set (map j_id (jobs s0)) then
               (next_err (JsError ''E11000 duplicate key error''), s0)
             else
               let s1 = s0\<lparr>jobs := jobs s0 @
                            [\<lparr> j_id = jobId, status = Starting, j_mode = mode,
                               file_name = originalname f, file_path = Some (path f),
                               cleaned_file_path = JUndefined, user_id = u_id u \<rparr>]\<rparr>
               in (case auditLog jobId ''JOB_CREATED'' (JObj [(''user_id'', JStr (u_id u))]) s1 of
                     (Inl e, s2) \<Rightarrow> (next_err e, s2)
                   | (Inr v, s2) \<Rightarrow>
                       (case auditLog jobId ''FILE_UPLOADED''
                               (JObj [(''fileName'', JStr (originalname f)),
                                      (''size'', JNum (int (size f))),
                                      (''mode'', JStr (mode_str mode))]) s2 of
                          (Inl e, s3) \<Rightarrow> (next_err e, s3)
                        | (Inr v, s3) \<Rightarrow> (Json 200 (JObj [(''job_id'', JStr jobId)]), s3))))"

section \<open>Ownership and the job routes\<close>

definition findOwnedJob :: "string \<Rightarrow> user \<Rightarrow> state \<Rightarrow> job option" where
  "findOwnedJob jobId u s =
     (case findById jobId (jobs s) of
        None \<Rightarrow> None
      | Some job \<Rightarrow>
          if role u = ''admin'' then Some job
          else if user_id job \<noteq> u_id u then None
          else Some job)"

definition post_analyze :: "user \<Rightarrow> string \<Rightarrow> state \<Rightarrow> response \<times> state \<times> task list" where
  "post_analyze u jobId s =
     (case findOwnedJob jobId u s of
        None \<Rightarrow>
          (Json 404 (JObj [(''detail'', JStr ''No uploaded file found for this job.'')]), s, [])
      | Some job \<Rightarrow>
          (case auditLog jobId ''ANALYSIS_ENQUEUED'' (JObj []) s of
             (Inl e, s') \<Rightarrow> (next_err e, s', [AnalysisTask jobId])
           | (Inr v, s') \<Rightarrow>
               (Json 200 (JObj [(''message'', JStr ''analysis started'')]), s',
                [AnalysisTask jobId])))"

definition get_status :: "user \<Rightarrow> string \<Rightarrow> state \<Rightarrow> response" where
  "get_status u jobId s =
     (let st = (case findOwnedJob jobId u s of
                  Some job \<Rightarrow> status_str (status job)
                | None \<Rightarrow> ''unknown'')
      in Json 200 (JObj [(''status'', JStr st)]))"

definition get_results :: "user \<Rightarrow> string \<Rightarrow> state \<Rightarrow> response" where
  "get_results u jobId s =
     (case findOwnedJob jobId u s of
        None \<Rightarrow> Json 404 (JObj [(''detail'', JStr ''Results not found'')])
      | Some job \<Rightarrow>
          (case find (\<lambda>r. ar_job_id r = jobId) (analysis_results s) of
             None \<Rightarrow> Json 404 (JObj [(''detail'', JStr ''Results not found'')])
           | Some analysis \<Rightarrow>
               if \<not> truthy (result analysis) then
                 Json 404 (JObj [(''detail'', JStr ''Results not found'')])
               else
                 Json 200 (JObj [(''cleaned_data'', field (result analysis) ''cleaned_data''),
                                 (''quality_report'', field (result analysis) ''quality_report'')])))"

definition export_report :: "string \<Rightarrow> jsval \<Rightarrow> jsval" where
  "export_report jobId data =
     (let meta = js_or (field data ''meta'') (JObj []);
          qr = js_or (field data ''quality_report'') (JObj []);
          cleaned = js_or (field data ''cleaned_data'') (JObj [])
      in JObj
           [(''meta'', JObj
               [(''job_id'', JStr jobId),
                (''file_path'', js_or (field meta ''file_path'') JNull),
                (''file_size_bytes'', js_or (field meta ''file_size_bytes'') JNull),
                (''mode'', js_or (field meta ''mode'') (JStr ''normal'')),
                (''analysis_type'', js_or (field meta ''analysis_type'') (JStr ''in-memory'')),
                (''started_at'', js_or (field meta ''started_at'') JNull),
                (''completed_at'', js_or (field meta ''completed_at'') JNull),
                (''duration_ms'', js_or (field meta ''duration_ms'') JNull),
                (''version'', JStr ''1.0'')]),
            (''dataset_summary'', JObj
               [(''rows'', js_or (field cleaned ''rows'') (JNum 0)),
                (''columns'', js_or (field cleaned ''columns'') (JNum 0))]),
            (''quality_overview'', JObj
               [(''missing_rate'', js_coalesce (field qr ''missing_rate'') JNull),
                (''duplicate_rate'', js_coalesce (field qr ''duplicate_rate'') JNull),
                (''error_rate'', js_coalesce (field qr ''outlier_rate'') JNull)]),
            (''column_analysis'', js_or (field qr ''column_analysis'') (JObj [])),
            (''limitations'', JObj
               [(''approximate_metrics'', JBool False), (''skipped_checks'', JArr [])])])"

definition get_results_export :: "user \<Rightarrow> string \<Rightarrow> state \<Rightarrow> response" where
  "get_results_export u jobId s =
     (case findOwnedJob jobId u s of
        None \<Rightarrow> Json 404 (JObj [(''detail'', JStr ''Results not found'')])
      | Some job \<Rightarrow>
          (case find (\<lambda>r. ar_job_id r = jobId) (analysis_results s) of
             None \<Rightarrow> Json 404 (JObj [(''detail'', JStr ''Results not found'')])
           | Some analysis \<Rightarrow>
               if \<not> truthy (result analysis) then
                 Json 404 (JObj [(''detail'', JStr ''Results not found'')])
               else Json 200 (export_report jobId (result analysis))))"

text \<open>
  \<open>POST /clean/:jobId\<close>; \<open>body\<close> is \<open>req.body\<close>, an object or array when the JSON body
  parser has run and \<open>undefined\<close> otherwise.
\<close>

definition post_clean :: "user \<Rightarrow> string \<Rightarrow> jsval \<Rightarrow> state \<Rightarrow> response \<times> state \<times> task list" where
  "post_clean u jobId body s =
     (case findOwnedJob jobId u s of
        None \<Rightarrow> (Json 404 (JObj [(''error'', JStr ''Job not found'')]), s, [])
      | Some job \<Rightarrow>
          let b = js_or body (JObj []);
              cleaningOptions =
                JObj [(''mode'', js_or (field b ''mode'') (JStr ''auto'')),
                      (''rules'', js_or (field b ''rules'') (JObj []))]
          in (case auditLog jobId ''CLEANING_ENQUEUED''
                      (JObj [(''mode'', field cleaningOptions ''mode'')]) s of
                (Inl e, s') \<Rightarrow> (next_err e, s', [CleaningTask jobId cleaningOptions])
              | (Inr v, s') \<Rightarrow>
                  (Json 200 (JObj [(''job_id'', JStr jobId), (''status'', JStr ''cleaning_started'')]),
                   s', [CleaningTask jobId cleaningOptions])))"

text \<open>\<open>GET /cleaned/:jobId\<close>; \<open>fs.existsSync\<close> is false on anything that is not a path.\<close>

definition get_cleaned :: "user \<Rightarrow> string \<Rightarrow> state \<Rightarrow> response" where
  "get_cleaned u jobId s =
     (case findOwnedJob jobId u s of
        None \<Rightarrow> Json 404 (JObj [(''error'', JStr ''Cleaned file not found'')])
      | Some job \<Rightarrow>
          if \<not> truthy (cleaned_file_path job) then
            Json 404 (JObj [(''error'', JStr ''Cleaned file not found'')])
          else
            (case cleaned_file_path job of
               JStr p \<Rightarrow>
                 if p \<notin> files s then Json 404 (JObj [(''error'', JStr ''File missing on disk'')])
                 else CsvAttachment p (j_id job @ ''-cleaned.csv'')
             | _ \<Rightarrow> Json 404 (JObj [(''error'', JStr ''File missing on disk'')])))"

text \<open>
  The stored cleaning result as the response shows it; the fields that the store adds to
  every document (\<open>_id\<close>, \<open>__v\<close>, \<open>created_at\<close>, \<open>updated_at\<close>) are not part of the record
  and are left out here.
\<close>

definition cleaning_result_json :: "cleaning_result \<Rightarrow> jsval" where
  "cleaning_result_json r =
     JObj [(''job_id'', JStr (cr_job_id r)), (''mode'', cr_mode r),
           (''rules_applied'', rules_applied r), (''summary'', summary r)]"

definition get_cleaning_result :: "user \<Rightarrow> string \<Rightarrow> state \<Rightarrow> response" where
  "get_cleaning_result u jobId s =
     (case findOwnedJob jobId u s of
        None \<Rightarrow> Json 404 (JObj [(''error'', JStr ''Not found'')])
      | Some job \<Rightarrow>
          (case find (\<lambda>r. cr_job_id r = jobId) (cleaning_results s) of
             None \<Rightarrow> Json 404 (JObj [(''error'', JStr ''Not found'')])
           | Some r \<Rightarrow> Json 200 (cleaning_result_json r)))"

text \<open>The job-scoped endpoints, as the router dispatches them.\<close>

datatype endpoint =
    Analyze | Status | Results | Export | Clean jsval | CleanedFile | CleaningResult

fun serve :: "endpoint \<Rightarrow> user \<Rightarrow> string \<Rightarrow> state \<Rightarrow> response \<times> state \<times> task list" where
  "serve Analyze u jobId s = post_analyze u jobId s"
| "serve Status u jobId s = (get_status u jobId s, s, [])"
| "serve Results u jobId s = (get_results u jobId s, s, [])"
| "serve Export u jobId s = (get_results_export u jobId s, s, [])"
| "serve (Clean body) u jobId s = post_clean u jobId body s"
| "serve CleanedFile u jobId s = (get_cleaned u jobId s, s, [])"
| "serve CleaningResult u jobId s = (get_cleaning_result u jobId s, s, [])"

section \<open>Deleting jobs\<close>

text \<open>\<open>try { fs.unlinkSync(p) } catch {}\<close> for the raw and the cleaned artifact of one job.\<close>

definition unlink_job_files :: "job \<Rightarrow> string set \<Rightarrow> string set" where
  "unlink_job_files job fs =
     (let fs1 = (case file_path job of
                   Some p \<Rightarrow> if p \<noteq> [] then fs - {p} else fs
                 | None \<Rightarrow> fs)
      in if truthy (cleaned_file_path job) then
           (case cleaned_file_path job of JStr p \<Rightarrow> fs1 - {p} | _ \<Rightarrow> fs1)
         else fs1)"

fun unlink_all :: "job list \<Rightarrow> string set \<Rightarrow> string set" where
  "unlink_all [] fs = fs"
| "unlink_all (j # js) fs = unlink_all js (unlink_job_files j fs)"

fun log_deleted :: "string \<Rightarrow> string list \<Rightarrow> state \<Rightarrow> (js_error + unit) \<times> state" where
  "log_deleted by [] s = (Inr (), s)"
| "log_deleted by (i # is) s =
     (case auditLog i ''JOB_DELETED'' (JObj [(''deleted_by'', JStr by)]) s of
        (Inl e, s') \<Rightarrow> (Inl e, s')
      | (Inr v, s') \<Rightarrow> log_deleted by is s')"

text \<open>
  \<open>DELETE /jobs\<close>; \<open>job_ids\<close> is \<open>None\<close> when the body has no array under that name, and
  otherwise holds the ids, which are strings. \<open>Job.find\<close> returns the matching documents in
  the collection's order, each once.
\<close>

definition delete_jobs :: "user \<Rightarrow> string list option \<Rightarrow> state \<Rightarrow> response \<times> state" where
  "delete_jobs u job_ids s =
     (case job_ids of
        None \<Rightarrow> (Json 400 (JObj [(''error'', JStr ''job_ids array is required'')]), s)
      | Some ids \<Rightarrow>
          if length ids = 0 then
            (Json 400 (JObj [(''error'', JStr ''job_ids array is required'')]), s)
          else
            let found = (if role u = ''admin''
                         then filter (\<lambda>j. j_id j \<in> set ids) (jobs s)
                         else filter (\<lambda>j. j_id j \<in> set ids \<and> user_id j = u_id u) (jobs s));
                ownedIds = map j_id found
            in if length ownedIds = 0 then
                 (Json 404 (JObj [(''error'', JStr ''No matching jobs found'')]), s)
               else
                 let s1 = s\<lparr>files := unlink_all found (files s)\<rparr>;
                     s2 = s1\<lparr>jobs := filter (\<lambda>j. j_id j \<notin> set ownedIds) (jobs s1),
                             analysis_results :=
                               filter (\<lambda>r. ar_job_id r \<notin> set ownedIds) (analysis_results s1),
                             cleaning_results :=
                               filter (\<lambda>r. cr_job_id r \<notin> set ownedIds) (cleaning_results s1)\<rparr>
                 in (case log_deleted (u_id u) ownedIds s2 of
                       (Inl e, s3) \<Rightarrow> (next_err e, s3)
                     | (Inr v, s3) \<Rightarrow>
                         (Json 200 (JObj [(''deleted'', JNum (int (length ownedIds))),
                                          (''job_ids'', JArr (map JStr ownedIds))]), s3)))"

section \<open>Login\<close>

text \<open>
  \<open>UserSchema.methods.comparePassword\<close>, that is \<open>bcrypt.compare(candidate, hash)\<close>: the
  library rejects a candidate that is not a string before it looks at the hash.
  \<open>bcrypt_match\<close> stands for the library's comparison of a string with a hash.
\<close>

definition comparePassword :: "(string \<Rightarrow> string \<Rightarrow> bool) \<Rightarrow> jsval \<Rightarrow> string \<Rightarrow> js_error + bool" where
  "comparePassword bcrypt_match candidate h =
     (case candidate of
        JStr p \<Rightarrow> Inr (bcrypt_match p h)
      | JUndefined \<Rightarrow> Inl (JsError ''data and hash arguments required'')
      | JNull \<Rightarrow> Inl (JsError ''data and hash arguments required'')
      | _ \<Rightarrow> Inl (JsError ''data and hash must be strings''))"

text \<open>
  \<open>POST /login\<close>. \<open>em\<close> is the body's \<open>email\<close> when it is a string (\<open>None\<close> when absent; a body
  whose email is of another type is not covered), \<open>pw\<close> is the body's \<open>password\<close>, any JSON
  value. \<open>sign\<close> stands for \<open>jwt.sign\<close> of the user's id and role. Whatever the handler
  throws goes to \<open>next(err)\<close>.
\<close>

definition login ::
  "(string \<Rightarrow> string \<Rightarrow> bool) \<Rightarrow> (string \<Rightarrow> string \<Rightarrow> string) \<Rightarrow>
   string option \<Rightarrow> jsval \<Rightarrow> state \<Rightarrow> response" where
  "login bcrypt_match sign em pw s =
     (if \<not> has_path em \<or> \<not> truthy pw then
        Json 400 (JObj [(''error'', JStr ''Email and password are required'')])
      else
        (case find (\<lambda>d. Some (email d) = em) (users s) of
           None \<Rightarrow> Json 401 (JObj [(''error'', JStr ''Invalid email or password'')])
         | Some d \<Rightarrow>
             (case comparePassword bcrypt_match pw (password_hash d) of
                Inl e \<Rightarrow> next_err e
              | Inr valid \<Rightarrow>
                  if \<not> valid then Json 401 (JObj [(''error'', JStr ''Invalid email or password'')])
                  else
                    JsonWithCookie 200
                      (JObj [(''user'', JObj [(''id'', JStr (ud_id d)), (''email'', JStr (email d)),
                                              (''role'', JStr (ud_role d))])])
                      (sign (ud_id d) (ud_role d)))))"

section \<open>The operations of the system\<close>

text \<open>
  Every operation that writes to a store: the handlers that write, the two background
  tasks as a whole, and the two halves of each task (up to the worker call, and from the
  worker call on), between which other operations may run.
\<close>

datatype operation =
    OpUpload user string "upload_file option"
  | OpAnalyze user string
  | OpClean user string jsval
  | OpDelete user "string list option"
  | OpRunAnalysis worker string
  | OpAnalysisDelegated string
  | OpAnalysisContinuation worker string job
  | OpRunCleaning worker string jsval
  | OpCleaningDelegated string jsval
  | OpCleaningContinuation worker string jsval job

fun exec :: "operation \<Rightarrow> state \<Rightarrow> state" where
  "exec (OpUpload u jobId file) s = snd (upload u jobId file s)"
| "exec (OpAnalyze u jobId) s = fst (snd (post_analyze u jobId s))"
| "exec (OpClean u jobId body) s = fst (snd (post_clean u jobId body s))"
| "exec (OpDelete u ids) s = snd (delete_jobs u ids s)"
| "exec (OpRunAnalysis w jobId) s = snd (runAnalysis w jobId s)"
| "exec (OpAnalysisDelegated jobId) s = snd (runAnalysis_start jobId s)"
| "exec (OpAnalysisContinuation w jobId job) s = snd (runAnalysis_finish w jobId job s)"
| "exec (OpRunCleaning w jobId opts) s = snd (runCleaning w jobId opts s)"
| "exec (OpCleaningDelegated jobId opts) s = snd (runCleaning_start jobId opts s)"
| "exec (OpCleaningContinuation w jobId opts job) s = snd (runCleaning_finish w jobId opts job s)"

section \<open>The specification's vocabulary\<close>



text \<open>The status stored for a job id, if the job exists.\<close>

definition status_of :: "string \<Rightarrow> state \<Rightarrow> status option" where
  "status_of jobId s = map_option status (findById jobId (jobs s))"


text \<open>
  The closed set of event kinds of the specification (section 4.3), and the kind that each
  event type written by the gateway stands for. A failed cleaning is logged under the
  type \<open>ERROR\<close> with the phase in its payload.
\<close>

datatype event_kind =
    JobCreated | FileReceived | OperationEnqueued | OperationStarted
  | RuleApplied | OperationCompleted | OperationFailed | JobDeleted

definition event_kind :: "string \<Rightarrow> event_kind option" where
  "event_kind t =
     map_of
       [(''JOB_CREATED'', JobCreated),
        (''FILE_UPLOADED'', FileReceived),
        (''ANALYSIS_ENQUEUED'', OperationEnqueued),
        (''CLEANING_ENQUEUED'', OperationEnqueued),
        (''ANALYSIS_STARTED'', OperationStarted),
        (''CLEANING_STARTED'', OperationStarted),
        (''RULE_APPLIED'', RuleApplied),
        (''ANALYSIS_COMPLETED'', OperationCompleted),
        (''CLEANING_COMPLETED'', OperationCompleted),
        (''ANALYSIS_FAILED'', OperationFailed),
        (''ERROR'', OperationFailed),
        (''JOB_DELETED'', JobDeleted)] t"

text \<open>
  A worker call that is not over when the timeout expires: the worker has neither failed
  nor delivered the whole of its response by then.
\<close>

definition exceeds_timeout :: "nat \<Rightarrow> fetch_behaviour \<Rightarrow> bool" where
  "exceeds_timeout t b =
     (case b of
        NoAnswer \<Rightarrow> True
      | NetworkFailure ms msg \<Rightarrow> t \<le> ms
      | Answer ms code body_ms body \<Rightarrow> t \<le> ms + body_ms)"

text \<open>A worker call on which neither the response headers nor a failure have arrived by \<open>t\<close>.\<close>

definition unanswered_at :: "nat \<Rightarrow> fetch_behaviour \<Rightarrow> bool" where
  "unanswered_at t b =
     (case b of
        NoAnswer \<Rightarrow> True
      | NetworkFailure ms msg \<Rightarrow> t \<le> ms
      | Answer ms code body_ms body \<Rightarrow> t \<le> ms)"

text \<open>The paths that deleting a job unlinks: its raw file and its cleaned file.\<close>

definition artifacts :: "job \<Rightarrow> string set" where
  "artifacts job =
     (case file_path job of Some p \<Rightarrow> if p \<noteq> [] then {p} else {} | None \<Rightarrow> {})
     \<union> (case cleaned_file_path job of JStr p \<Rightarrow> if p \<noteq> [] then {p} else {} | _ \<Rightarrow> {})"

text \<open>The jobs named in a delete request that belong to the caller, in the collection's order.\<close>

definition owned_listed :: "user \<Rightarrow> string list \<Rightarrow> state \<Rightarrow> job list" where
  "owned_listed u ids s = filter (\<lambda>j. j_id j \<in> set ids \<and> user_id j = u_id u) (jobs s)"

definition deleted_event :: "string \<Rightarrow> string \<Rightarrow> audit_event" where
  "deleted_event by i =
     \<lparr> ev_job_id = i, event_type = ''JOB_DELETED'', payload = JObj [(''deleted_by'', JStr by)] \<rparr>"

text \<open>Two small stores used as concrete inputs.\<close>

definition alice :: user where
  "alice = \<lparr>u_id = ''alice'', role = ''user''\<rparr>"

definition bobs_job :: job where
  "bobs_job = \<lparr> j_id = ''j2'', status = Completed, j_mode = Normal, file_name = ''b.csv'',
                file_path = Some ''uploads/b.csv'', cleaned_file_path = JStr ''uploads/b-cleaned.csv'',
                user_id = ''bob'' \<rparr>"

definition alices_job :: job where
  "alices_job = \<lparr> j_id = ''j1'', status = Completed, j_mode = Normal, file_name = ''a.csv'',
                  file_path = Some ''uploads/a.csv'', cleaned_file_path = JUndefined,
                  user_id = ''alice'' \<rparr>"

definition two_jobs :: state where
  "two_jobs =
     \<lparr> jobs = [alices_job, bobs_job],
       analysis_results =
         [\<lparr>ar_job_id = ''j1'', result = JObj [(''cleaned_data'', JObj [])], analysis_type = JStr ''in-memory''\<rparr>,
          \<lparr>ar_job_id = ''j2'', result = JObj [(''cleaned_data'', JObj [])], analysis_type = JStr ''in-memory''\<rparr>],
       cleaning_results = [],
       users = [\<lparr>ud_id = ''bob'', email = ''bob@example.org'', password_hash = ''h'', ud_role = ''user''\<rparr>],
       audit_log = [],
       files = {''uploads/a.csv'', ''uploads/b.csv'', ''uploads/b-cleaned.csv''} \<rparr>"

definition empty_state :: state where
  "empty_state =
     \<lparr> jobs = [], analysis_results = [], cleaning_results = [], users = [], audit_log = [], files = {} \<rparr>"

text \<open>The rows that the two services append.\<close>

definition started_event :: "string \<Rightarrow> audit_event" where
  "started_event i = \<lparr> ev_job_id = i, event_type = ''ANALYSIS_STARTED'', payload = JObj [] \<rparr>"

definition failed_event :: "string \<Rightarrow> js_error \<Rightarrow> audit_event" where
  "failed_event i e =
     \<lparr> ev_job_id = i, event_type = ''ANALYSIS_FAILED'', payload = JObj [(''error'', JStr (message e))] \<rparr>"

definition analysis_completed_event :: "string \<Rightarrow> jsval \<Rightarrow> audit_event" where
  "analysis_completed_event i data =
     \<lparr> ev_job_id = i, event_type = ''ANALYSIS_COMPLETED'',
       payload = JObj [(''analysis_type'', opt_prop (opt_prop (field data ''result'') ''meta'') ''analysis_type''),
                       (''duration_ms'', opt_prop (opt_prop (field data ''result'') ''meta'') ''duration_ms'')] \<rparr>"

definition cleaning_started_event :: "string \<Rightarrow> jsval \<Rightarrow> audit_event" where
  "cleaning_started_event i opts =
     \<lparr> ev_job_id = i, event_type = ''CLEANING_STARTED'', payload = JObj [(''mode'', field opts ''mode'')] \<rparr>"

text \<open>The row that the rule loop appends for one element of the rule list.\<close>

definition rule_event :: "string \<Rightarrow> jsval \<Rightarrow> audit_event" where
  "rule_event jobId r =
     \<lparr> ev_job_id = jobId, event_type = ''RULE_APPLIED'',
       payload = (if r = JUndefined then JObj [] else r) \<rparr>"

definition completed_event :: "string \<Rightarrow> jsval \<Rightarrow> jsval \<Rightarrow> audit_event" where
  "completed_event i data removed =
     \<lparr> ev_job_id = i, event_type = ''CLEANING_COMPLETED'',
       payload = JObj [(''cleaned_file_path'', field data ''cleaned_file_path''),
                       (''rows_removed'', removed)] \<rparr>"

definition error_event :: "string \<Rightarrow> js_error \<Rightarrow> audit_event" where
  "error_event i e =
     \<lparr> ev_job_id = i, event_type = ''ERROR'',
       payload = JObj [(''phase'', JStr ''cleaning''), (''error'', JStr (message e))] \<rparr>"

text \<open>A response body on which neither service throws at \<open>data.status\<close>: it is not \<open>null\<close> and its status is not \<open>failed\<close>.\<close>

definition accepted :: "jsval \<Rightarrow> bool" where
  "accepted data = (\<not> nullish data \<and> field data ''status'' \<noteq> JStr ''failed'')"

text \<open>What the services throw on a response body that is not accepted.\<close>

definition status_error :: "jsval \<Rightarrow> string \<Rightarrow> js_error" where
  "status_error data dflt =
     (case js_prop data ''status'' of
        Inl e \<Rightarrow> e
      | Inr st \<Rightarrow> JsError (to_str (js_or (field data ''error'') (JStr dflt))))"

text \<open>The state after the success path of \<open>runAnalysis\<close> (lines 58 to 72) for a response \<open>data\<close>.\<close>

definition analysis_success :: "string \<Rightarrow> jsval \<Rightarrow> state \<Rightarrow> state" where
  "analysis_success i data s =
     logged (analysis_completed_event i data)
       (set_status i Completed (s\<lparr>analysis_results := upsert_analysis i data (analysis_results s)\<rparr>))"

text \<open>
  The state after the two store writes of \<open>runCleaning\<close> (lines 63 to 78), where \<open>v\<close> is
  the cleaned path of the response as cast for the job document.
\<close>

definition cleaning_stored :: "string \<Rightarrow> jsval \<Rightarrow> jsval \<Rightarrow> jsval \<Rightarrow> state \<Rightarrow> state" where
  "cleaning_stored i opts data v s =
     set_cleaned i v (s\<lparr>cleaning_results := upsert_cleaning i opts data (cleaning_results s)\<rparr>)"

text \<open>A rule that the audit log takes as the payload of a \<open>RULE_APPLIED\<close> row.\<close>

definition loggable :: "jsval \<Rightarrow> bool" where
  "loggable r = jsonb_accepts (if r = JUndefined then JObj [] else r)"

text \<open>The state after the rule loop: one row for each rule before the first that is refused.\<close>

definition rules_logged :: "string \<Rightarrow> jsval list \<Rightarrow> state \<Rightarrow> state" where
  "rules_logged i rs s = s\<lparr>audit_log := audit_log s @ map (rule_event i) (takeWhile loggable rs)\<rparr>"

text \<open>The state after the success path of \<open>runCleaning\<close> (lines 63 to 86).\<close>

definition cleaning_success ::
  "string \<Rightarrow> jsval \<Rightarrow> jsval \<Rightarrow> jsval \<Rightarrow> jsval list \<Rightarrow> jsval \<Rightarrow> state \<Rightarrow> state" where
  "cleaning_success i opts data v rs removed s =
     logged (completed_event i data removed) (rules_logged i rs (cleaning_stored i opts data v s))"

text \<open>
  What a cleaning that throws has done by then: it has written nothing, or stored the
  result, or stored the result, marked the job \<open>cleaned\<close> and logged some rules.
\<close>

inductive cleaning_partial :: "string \<Rightarrow> jsval \<Rightarrow> state \<Rightarrow> state \<Rightarrow> bool"
  for i :: string and opts :: jsval and s :: state where
  nothing: "cleaning_partial i opts s s"
| stored:
    "cleaning_partial i opts s
       (s\<lparr>cleaning_results := upsert_cleaning i opts data (cleaning_results s)\<rparr>)"
| marked: "cleaning_partial i opts s (rules_logged i rs (cleaning_stored i opts data v s))"

text \<open>Events whose type stands for one of the kinds of the closed set.\<close>

definition known_events :: "audit_event list \<Rightarrow> bool" where
  "known_events es = (\<forall>e \<in> set es. event_kind (event_type e) \<noteq> None)"

definition appends_known :: "state \<Rightarrow> state \<Rightarrow> bool" where
  "appends_known s s' = (\<exists>es. audit_log s' = audit_log s @ es \<and> known_events es)"


text \<open>More concrete inputs: a store with one freshly uploaded job, workers and responses.\<close>

definition one_job :: state where
  "one_job =
     \<lparr> jobs = [\<lparr> j_id = ''j1'', status = Starting, j_mode = Normal, file_name = ''a.csv'',
                 file_path = Some ''uploads/a.csv'', cleaned_file_path = JUndefined,
                 user_id = ''alice'' \<rparr>],
       analysis_results = [], cleaning_results = [], users = [], audit_log = [], files = {''uploads/a.csv''} \<rparr>"






definition drop_duplicates_rule :: jsval where
  "drop_duplicates_rule = JObj [(''rule'', JStr ''drop_duplicates''), (''rows_affected'', JNum 3)]"

definition trim_rule :: jsval where
  "trim_rule = JObj [(''rule'', JStr ''trim''), (''rows_affected'', JNum 0)]"

definition good_response :: jsval where
  "good_response =
     JObj [(''status'', JStr ''ok''),
           (''result'', JObj [(''meta'', JObj [(''analysis_type'', JStr ''streaming'')])]),
           (''cleaned_file_path'', JStr ''uploads/a-cleaned.csv''),
           (''rules_applied'', JArr [drop_duplicates_rule, trim_rule]),
           (''summary'', JObj [(''rows_removed'', JNum 3)])]"

definition good_worker :: worker where
  "good_worker url body = Answer 1200 200 30 (Inr good_response)"


definition failing_worker :: worker where
  "failing_worker url body =
     Answer 40 200 1 (Inr (JObj [(''status'', JStr ''failed''), (''error'', JStr ''bad csv'')]))"

text \<open>A response whose rules are the rules' names, as strings.\<close>

definition named_rules_response :: jsval where
  "named_rules_response =
     JObj [(''status'', JStr ''ok''),
           (''cleaned_file_path'', JStr ''uploads/a-cleaned.csv''),
           (''rules_applied'', JArr [JStr ''drop_duplicates'', JStr ''trim'']),
           (''summary'', JObj [(''rows_removed'', JNum 3)])]"

definition named_rules_worker :: worker where
  "named_rules_worker url body = Answer 1200 200 30 (Inr named_rules_response)"

definition jsonb_error :: js_error where
  "jsonb_error = JsError ''invalid input syntax for type json''"

text \<open>Each result store holds at most one record per job id.\<close>

definition results_unique :: "state \<Rightarrow> bool" where
  "results_unique s =
     (distinct (map ar_job_id (analysis_results s)) \<and> distinct (map cr_job_id (cleaning_results s)))"

section \<open>What each write leaves alone\<close>

lemma logged_fields [simp]:
  "jobs (logged e s) = jobs s"
  "analysis_results (logged e s) = analysis_results s"
  "cleaning_results (logged e s) = cleaning_results s"
  "users (logged e s) = users s"
  "files (logged e s) = files s"
  "audit_log (logged e s) = audit_log s @ [e]"
  by (simp_all add: logged_def)

lemma auditLog_obj [simp]:
  "auditLog i t (JObj kvs) s
     = (Inr (), logged \<lparr> ev_job_id = i, event_type = t, payload = JObj kvs \<rparr> s)"
  by (simp add: auditLog_def jsonb_accepts_def)

lemma auditLog_rule:
  "auditLog i ''RULE_APPLIED'' r s
     = (if loggable r then (Inr (), logged (rule_event i r) s) else (Inl jsonb_error, s))"
  by (simp add: auditLog_def loggable_def rule_event_def jsonb_error_def Let_def)

lemma set_status_fields [simp]:
  "analysis_results (set_status i st s) = analysis_results s"
  "cleaning_results (set_status i st s) = cleaning_results s"
  "users (set_status i st s) = users s"
  "audit_log (set_status i st s) = audit_log s"
  "files (set_status i st s) = files s"
  by (simp_all add: set_status_def)

lemma set_cleaned_fields [simp]:
  "analysis_results (set_cleaned i v s) = analysis_results s"
  "cleaning_results (set_cleaned i v s) = cleaning_results s"
  "users (set_cleaned i v s) = users s"
  "audit_log (set_cleaned i v s) = audit_log s"
  "files (set_cleaned i v s) = files s"
  by (simp_all add: set_cleaned_def)

lemma rules_logged_fields [simp]:
  "jobs (rules_logged i rs s) = jobs s"
  "analysis_results (rules_logged i rs s) = analysis_results s"
  "cleaning_results (rules_logged i rs s) = cleaning_results s"
  "users (rules_logged i rs s) = users s"
  "files (rules_logged i rs s) = files s"
  "audit_log (rules_logged i rs s) = audit_log s @ map (rule_event i) (takeWhile loggable rs)"
  by (simp_all add: rules_logged_def)

lemma rules_logged_Nil [simp]: "rules_logged i [] s = s"
  by (simp add: rules_logged_def)

lemma rules_logged_Cons:
  "rules_logged i (r # rs) s = (if loggable r then rules_logged i rs (logged (rule_event i r) s) else s)"
  by (simp add: rules_logged_def logged_def)

text \<open>The rule loop in closed form: it returns when every rule is taken, and has logged the rules before the first that is refused.\<close>

lemma log_rules_eq:
  "log_rules i rs s
     = ((if list_all loggable rs then Inr () else Inl jsonb_error), rules_logged i rs s)"
  by (induction rs arbitrary: s) (simp_all add: auditLog_rule rules_logged_Cons)

lemma log_deleted_eq:
  "log_deleted b is s = (Inr (), s\<lparr>audit_log := audit_log s @ map (deleted_event b) is\<rparr>)"
  by (induction "is" arbitrary: s) (simp_all add: logged_def deleted_event_def)

lemma replaceOne_keys:
  "k d = j \<Longrightarrow> map k (replaceOne (\<lambda>x. k x = j) d xs) = (if j \<in> set (map k xs) then map k xs else map k xs @ [j])"
  by (induction xs) auto

lemma replaceOne_distinct:
  "k d = j \<Longrightarrow> distinct (map k xs) \<Longrightarrow> distinct (map k (replaceOne (\<lambda>x. k x = j) d xs))"
  by (simp add: replaceOne_keys)

lemma replaceOne_filter:
  "k d = j \<Longrightarrow> distinct (map k xs) \<Longrightarrow> filter (\<lambda>x. k x = j) (replaceOne (\<lambda>x. k x = j) d xs) = [d]"
proof (induction xs)
  case Nil
  then show ?case by simp
next
  case (Cons x xs)
  show ?case
  proof (cases "k x = j")
    case True
    with Cons.prems have "\<forall>y \<in> set xs. k y \<noteq> j" by (auto simp: image_iff)
    then have "filter (\<lambda>x. k x = j) xs = []" by (simp add: filter_empty_conv)
    with True Cons.prems show ?thesis by simp
  next
    case False
    with Cons show ?thesis by simp
  qed
qed

lemma replaceOne_others:
  "k d = j \<Longrightarrow> filter (\<lambda>x. k x \<noteq> j) (replaceOne (\<lambda>x. k x = j) d xs) = filter (\<lambda>x. k x \<noteq> j) xs"
  by (induction xs) auto

section \<open>Upload\<close>




section \<open>Ownership\<close>

lemma findById_removed:
  "findById jobId (filter (\<lambda>j. j_id j \<noteq> jobId) js) = None"
  by (induction js) (auto simp: findById_def)

text \<open>
  Claim C5. For a subject whose role is not \<open>admin\<close> and a job id whose job belongs to
  another subject, each job-scoped endpoint (analyze, status, results, export, clean,
  cleaned, cleaning-result) gives the response it gives when the job is absent from the
  store, writes nothing and starts no task; the response is never a 403: it is 404, and
  for the status endpoint it is the status \<open>unknown\<close>.
\<close>

theorem foreign_job_looks_absent:
  assumes "role u \<noteq> ''admin''"
      and "findById jobId (jobs s) = Some job"
      and "user_id job \<noteq> u_id u"
  shows "serve ep u jobId s
           = (fst (serve ep u jobId (s\<lparr>jobs := filter (\<lambda>j. j_id j \<noteq> jobId) (jobs s)\<rparr>)), s, [])
       \<and> findById jobId (filter (\<lambda>j. j_id j \<noteq> jobId) (jobs s)) = None
       \<and> response_code (fst (serve ep u jobId s)) \<noteq> 403
       \<and> (if ep = Status
           then fst (serve ep u jobId s) = Json 200 (JObj [(''status'', JStr ''unknown'')])
           else response_code (fst (serve ep u jobId s)) = 404)"
  using assms
  by (cases ep)
     (simp_all add: findOwnedJob_def findById_removed post_analyze_def get_status_def
        get_results_def get_results_export_def post_clean_def get_cleaned_def
        get_cleaning_result_def)

theorem foreign_job_looks_absent_witness:
  "role alice \<noteq> ''admin''
   \<and> findById ''j2'' (jobs two_jobs) = Some bobs_job
   \<and> user_id bobs_job \<noteq> u_id alice
   \<and> serve Results alice ''j2'' two_jobs
       = (Json 404 (JObj [(''detail'', JStr ''Results not found'')]), two_jobs, [])
   \<and> fst (serve Results alice ''j2'' (two_jobs\<lparr>jobs := filter (\<lambda>j. j_id j \<noteq> ''j2'') (jobs two_jobs)\<rparr>))
       = Json 404 (JObj [(''detail'', JStr ''Results not found'')])"
  using foreign_job_looks_absent [of alice "''j2''" two_jobs bobs_job Results]
  by (simp add: alice_def two_jobs_def bobs_job_def alices_job_def findById_def
        get_results_def findOwnedJob_def)

section \<open>Deleting jobs\<close>

lemma unlink_job_files_eq: "unlink_job_files job fs = fs - artifacts job"
  by (cases "cleaned_file_path job")
     (auto simp: unlink_job_files_def artifacts_def Let_def split: option.splits)

lemma unlink_all_eq: "unlink_all js fs = fs - \<Union> (artifacts ` set js)"
  by (induction js arbitrary: fs) (auto simp: unlink_job_files_eq)

lemma distinct_same_id:
  "distinct (map j_id js) \<Longrightarrow> j \<in> set js \<Longrightarrow> j' \<in> set js \<Longrightarrow> j_id j = j_id j' \<Longrightarrow> j = j'"
  by (metis distinct_map inj_onD)

lemma delete_filter_owned:
  assumes "distinct (map j_id js)"
  shows "filter (\<lambda>j. j_id j \<notin> set (map j_id (filter P js))) js = filter (\<lambda>j. \<not> P j) js"
proof (rule filter_cong[OF refl])
  fix j assume j: "j \<in> set js"
  show "(j_id j \<notin> set (map j_id (filter P js))) = (\<not> P j)"
  proof
    assume "j_id j \<notin> set (map j_id (filter P js))"
    then show "\<not> P j" using j by auto
  next
    assume np: "\<not> P j"
    show "j_id j \<notin> set (map j_id (filter P js))"
    proof
      assume "j_id j \<in> set (map j_id (filter P js))"
      then obtain j' where "j' \<in> set js" "P j'" "j_id j' = j_id j" by auto
      with distinct_same_id[OF assms j] np show False by metis
    qed
  qed
qed

lemma delete_jobs_effect:
  assumes "role u \<noteq> ''admin''" and "distinct (map j_id (jobs s))" and "ids \<noteq> []"
  shows "delete_jobs u (Some ids) s =
           (if owned_listed u ids s = []
            then (Json 404 (JObj [(''error'', JStr ''No matching jobs found'')]), s)
            else (Json 200 (JObj [(''deleted'', JNum (int (length (owned_listed u ids s)))),
                                  (''job_ids'', JArr (map JStr (map j_id (owned_listed u ids s))))]),
                  s\<lparr>jobs := filter (\<lambda>j. \<not> (j_id j \<in> set ids \<and> user_id j = u_id u)) (jobs s),
                    analysis_results :=
                      filter (\<lambda>r. ar_job_id r \<notin> set (map j_id (owned_listed u ids s))) (analysis_results s),
                    cleaning_results :=
                      filter (\<lambda>r. cr_job_id r \<notin> set (map j_id (owned_listed u ids s))) (cleaning_results s),
                    audit_log := audit_log s @ map (deleted_event (u_id u)) (map j_id (owned_listed u ids s)),
                    files := files s - \<Union> (artifacts ` set (owned_listed u ids s))\<rparr>))"
proof -
  have eq: "filter (\<lambda>j. j_id j \<notin> set (map j_id (owned_listed u ids s))) (jobs s)
            = filter (\<lambda>j. \<not> (j_id j \<in> set ids \<and> user_id j = u_id u)) (jobs s)"
    unfolding owned_listed_def using assms(2) by (rule delete_filter_owned)
  show ?thesis
    using assms(1,3) eq
    by (simp add: delete_jobs_def Let_def owned_listed_def[symmetric] unlink_all_eq log_deleted_eq)
qed

lemma filter_none_keep: "filter P xs = [] \<Longrightarrow> filter (\<lambda>x. \<not> P x) xs = xs"
  by (induction xs) (auto split: if_splits)

lemma filter_key_frame:
  "i \<notin> S \<Longrightarrow> filter (\<lambda>r. k r = i) (filter (\<lambda>r. k r \<notin> S) rs) = filter (\<lambda>r. k r = i) rs"
  by (induction rs) auto

lemma foreign_not_owned:
  assumes "distinct (map j_id (jobs s))" "j \<in> set (jobs s)" "user_id j \<noteq> u_id u"
  shows "j_id j \<notin> set (map j_id (owned_listed u ids s))"
proof
  assume "j_id j \<in> set (map j_id (owned_listed u ids s))"
  then obtain j' where j': "j' \<in> set (jobs s)" "user_id j' = u_id u" "j_id j' = j_id j"
    by (auto simp: owned_listed_def)
  from distinct_same_id[OF assms(1) j'(1) assms(2) j'(3)] j'(2) assms(3) show False by simp
qed

text \<open>
  Claim C9. A delete request by a subject whose role is not \<open>admin\<close>, naming a non-empty
  list of job ids, on a job store with unique ids: exactly the named jobs that the caller
  owns are removed, together with the analysis and cleaning results under their ids and
  their files on disk, and one deletion event per removed job is logged; the response
  lists exactly those ids (or is 404 when there are none). Every job of another owner
  stays in the job store as it was, its id is not among the deleted ids, and the results
  under its id are as before. The response is the one the request gets when the other
  owners' jobs are not in the store at all.
\<close>

theorem delete_jobs_only_own:
  assumes "role u \<noteq> ''admin''" and "distinct (map j_id (jobs s))" and "ids \<noteq> []"
  shows "jobs (snd (delete_jobs u (Some ids) s))
           = filter (\<lambda>j. \<not> (j_id j \<in> set ids \<and> user_id j = u_id u)) (jobs s)
       \<and> analysis_results (snd (delete_jobs u (Some ids) s))
           = filter (\<lambda>r. ar_job_id r \<notin> set (map j_id (owned_listed u ids s))) (analysis_results s)
       \<and> cleaning_results (snd (delete_jobs u (Some ids) s))
           = filter (\<lambda>r. cr_job_id r \<notin> set (map j_id (owned_listed u ids s))) (cleaning_results s)
       \<and> files (snd (delete_jobs u (Some ids) s))
           = files s - \<Union> (artifacts ` set (owned_listed u ids s))
       \<and> audit_log (snd (delete_jobs u (Some ids) s))
           = audit_log s @ map (deleted_event (u_id u)) (map j_id (owned_listed u ids s))
       \<and> fst (delete_jobs u (Some ids) s)
           = (if owned_listed u ids s = []
              then Json 404 (JObj [(''error'', JStr ''No matching jobs found'')])
              else Json 200 (JObj [(''deleted'', JNum (int (length (owned_listed u ids s)))),
                                   (''job_ids'', JArr (map JStr (map j_id (owned_listed u ids s))))]))
       \<and> (\<forall>j \<in> set (jobs s). user_id j \<noteq> u_id u \<longrightarrow>
             j \<in> set (jobs (snd (delete_jobs u (Some ids) s)))
           \<and> j_id j \<notin> set (map j_id (owned_listed u ids s))
           \<and> filter (\<lambda>r. ar_job_id r = j_id j) (analysis_results (snd (delete_jobs u (Some ids) s)))
               = filter (\<lambda>r. ar_job_id r = j_id j) (analysis_results s)
           \<and> filter (\<lambda>r. cr_job_id r = j_id j) (cleaning_results (snd (delete_jobs u (Some ids) s)))
               = filter (\<lambda>r. cr_job_id r = j_id j) (cleaning_results s))
       \<and> fst (delete_jobs u (Some ids) s)
           = fst (delete_jobs u (Some ids) (s\<lparr>jobs := filter (\<lambda>j. user_id j = u_id u) (jobs s)\<rparr>))"
proof -
  let ?D = "delete_jobs u (Some ids) s"
  let ?own = "owned_listed u ids s"
  note eff = delete_jobs_effect[OF assms]
  have a: "jobs (snd ?D) = filter (\<lambda>j. \<not> (j_id j \<in> set ids \<and> user_id j = u_id u)) (jobs s)"
  proof (cases "?own = []")
    case True
    then have "filter (\<lambda>j. \<not> (j_id j \<in> set ids \<and> user_id j = u_id u)) (jobs s) = jobs s"
      unfolding owned_listed_def by (rule filter_none_keep)
    with True eff show ?thesis by simp
  next
    case False
    with eff show ?thesis by simp
  qed
  have b: "analysis_results (snd ?D)
             = filter (\<lambda>r. ar_job_id r \<notin> set (map j_id ?own)) (analysis_results s)"
    using eff by (cases "?own = []") simp_all
  have c: "cleaning_results (snd ?D)
             = filter (\<lambda>r. cr_job_id r \<notin> set (map j_id ?own)) (cleaning_results s)"
    using eff by (cases "?own = []") simp_all
  have d: "files (snd ?D) = files s - \<Union> (artifacts ` set ?own)"
    using eff by (cases "?own = []") simp_all
  have e: "audit_log (snd ?D) = audit_log s @ map (deleted_event (u_id u)) (map j_id ?own)"
    using eff by (cases "?own = []") simp_all
  have f: "fst ?D
           = (if ?own = []
              then Json 404 (JObj [(''error'', JStr ''No matching jobs found'')])
              else Json 200 (JObj [(''deleted'', JNum (int (length ?own))),
                                   (''job_ids'', JArr (map JStr (map j_id ?own)))]))"
    using eff by simp
  have g: "j \<in> set (jobs (snd ?D))
           \<and> j_id j \<notin> set (map j_id ?own)
           \<and> filter (\<lambda>r. ar_job_id r = j_id j) (analysis_results (snd ?D))
               = filter (\<lambda>r. ar_job_id r = j_id j) (analysis_results s)
           \<and> filter (\<lambda>r. cr_job_id r = j_id j) (cleaning_results (snd ?D))
               = filter (\<lambda>r. cr_job_id r = j_id j) (cleaning_results s)"
    if j: "j \<in> set (jobs s)" "user_id j \<noteq> u_id u" for j
  proof -
    have n: "j_id j \<notin> set (map j_id ?own)"
      using assms(2) j by (rule foreign_not_owned)
    have "j \<in> set (jobs (snd ?D))" unfolding a using j by simp
    moreover note n
    moreover have "filter (\<lambda>r. ar_job_id r = j_id j) (analysis_results (snd ?D))
               = filter (\<lambda>r. ar_job_id r = j_id j) (analysis_results s)"
      unfolding b using n by (rule filter_key_frame)
    moreover have "filter (\<lambda>r. cr_job_id r = j_id j) (cleaning_results (snd ?D))
               = filter (\<lambda>r. cr_job_id r = j_id j) (cleaning_results s)"
      unfolding c using n by (rule filter_key_frame)
    ultimately show ?thesis by blast
  qed
  let ?s0 = "s\<lparr>jobs := filter (\<lambda>j. user_id j = u_id u) (jobs s)\<rparr>"
  have d0: "distinct (map j_id (jobs ?s0))"
    using assms(2) by (simp add: distinct_map_filter)
  have o0: "owned_listed u ids ?s0 = ?own"
    by (simp add: owned_listed_def conj_commute cong: conj_cong)
  have h: "fst ?D = fst (delete_jobs u (Some ids) ?s0)"
    using delete_jobs_effect[OF assms(1) d0 assms(3)] f unfolding o0 by simp
  from a b c d e f g h show ?thesis by blast
qed

theorem delete_jobs_only_own_witness:
  "role alice \<noteq> ''admin''
   \<and> distinct (map j_id (jobs two_jobs))
   \<and> [''j1'', ''j2'', ''j3''] \<noteq> []
   \<and> jobs (snd (delete_jobs alice (Some [''j1'', ''j2'', ''j3'']) two_jobs)) = [bobs_job]
   \<and> map ar_job_id (analysis_results (snd (delete_jobs alice (Some [''j1'', ''j2'', ''j3'']) two_jobs)))
       = [''j2'']
   \<and> fst (delete_jobs alice (Some [''j1'', ''j2'', ''j3'']) two_jobs)
       = Json 200 (JObj [(''deleted'', JNum 1), (''job_ids'', JArr [JStr ''j1''])])"
  using delete_jobs_only_own [of alice two_jobs "[''j1'', ''j2'', ''j3'']"]
  by (simp add: alice_def two_jobs_def bobs_job_def alices_job_def owned_listed_def)

section \<open>The background tasks, case by case\<close>

lemmas run_defs =
  runAnalysis_def runAnalysis_start_def runAnalysis_finish_def analysis_try_def
  runCleaning_def runCleaning_start_def runCleaning_finish_def cleaning_try_def
  findById_def has_path_def path_val_def
  fetch_with_timeout_def ANALYSIS_TIMEOUT_MS_def CLEANING_TIMEOUT_MS_def HEADERS_TIMEOUT_MS_def
  fetch_failed_message_def response_ok_def
  js_prop_def set_status_def set_cleaned_def logged_def upsert_analysis_def upsert_cleaning_def
  analysis_doc_def cleaning_doc_def castString_def castMixedArray_def
  iterate_def js_or_def opt_prop_def nullish_def Let_def
  status_of_def exceeds_timeout_def unanswered_at_def
  started_event_def failed_event_def analysis_completed_event_def cleaning_started_event_def
  rule_event_def completed_event_def error_event_def accepted_def
  log_rules_eq rules_logged_def loggable_def jsonb_accepts_def jsonb_error_def

lemma updateOne_ids:
  "(\<And>j. j_id (f j) = j_id j) \<Longrightarrow> map j_id (updateOne p f js) = map j_id js"
  by (induction js) auto

lemma findById_updateOne:
  "(\<And>j. j_id (f j) = j_id j) \<Longrightarrow>
   findById i (updateOne (\<lambda>j. j_id j = i) f js) = map_option f (findById i js)"
  by (induction js) (auto simp: findById_def)

lemma findById_updateOne_other:
  "(\<And>j. j_id (f j) = j_id j) \<Longrightarrow> i \<noteq> k \<Longrightarrow>
   findById i (updateOne (\<lambda>j. j_id j = k) f js) = findById i js"
  by (induction js) (auto simp: findById_def)

lemma findById_None_iff: "findById i js = None \<longleftrightarrow> i \<notin> j_id ` set js"
  by (induction js) (auto simp: findById_def)


lemma set_status_ids [simp]: "map j_id (jobs (set_status i st s)) = map j_id (jobs s)"
  by (simp add: set_status_def updateOne_ids)

lemma set_status_idset [simp]: "j_id ` set (jobs (set_status i st s)) = j_id ` set (jobs s)"
  using set_status_ids[of i st s] by (metis set_map)

lemma set_cleaned_ids [simp]: "map j_id (jobs (set_cleaned i v s)) = map j_id (jobs s)"
  by (simp add: set_cleaned_def updateOne_ids)

lemma set_cleaned_idset [simp]: "j_id ` set (jobs (set_cleaned i v s)) = j_id ` set (jobs s)"
  using set_cleaned_ids[of i v s] by (metis set_map)

lemma status_of_logged [simp]: "status_of i (logged e s) = status_of i s"
  by (simp add: status_of_def)

lemma status_of_rules_logged [simp]: "status_of i (rules_logged k rs s) = status_of i s"
  by (simp add: status_of_def)

lemma status_of_results [simp]:
  "status_of i (s\<lparr>cleaning_results := c\<rparr>) = status_of i s"
  "status_of i (s\<lparr>analysis_results := a\<rparr>) = status_of i s"
  by (simp_all add: status_of_def)

lemma status_of_set_status:
  "status_of i (set_status i st s) = (if i \<in> j_id ` set (jobs s) then Some st else None)"
proof (cases "findById i (jobs s)")
  case None
  then show ?thesis
    by (simp add: status_of_def set_status_def findById_updateOne findById_None_iff)
next
  case (Some a)
  then have "i \<in> j_id ` set (jobs s)"
    using findById_None_iff[of i "jobs s"] by simp
  with Some show ?thesis
    by (simp add: status_of_def set_status_def findById_updateOne)
qed


lemma status_of_set_cleaned:
  "status_of i (set_cleaned i v s) = (if i \<in> j_id ` set (jobs s) then Some Cleaned else None)"
proof (cases "findById i (jobs s)")
  case None
  then show ?thesis
    by (simp add: status_of_def set_cleaned_def findById_updateOne findById_None_iff)
next
  case (Some a)
  then have "i \<in> j_id ` set (jobs s)"
    using findById_None_iff[of i "jobs s"] by simp
  with Some show ?thesis
    by (simp add: status_of_def set_cleaned_def findById_updateOne)
qed

lemma status_of_set_cleaned_other:
  "i \<noteq> k \<Longrightarrow> status_of i (set_cleaned k v s) = status_of i s"
  by (simp add: status_of_def set_cleaned_def findById_updateOne_other)




subsection \<open>The start of a task\<close>

lemma runAnalysis_start_found:
  "findById i (jobs s) = Some job \<Longrightarrow> has_path (file_path job) \<Longrightarrow>
   runAnalysis_start i s = (Inr job, logged (started_event i) (set_status i Running s))"
  by (simp add: runAnalysis_start_def started_event_def)

lemma runAnalysis_start_cases:
  obtains (missing) "runAnalysis_start i s = (Inl (JsError ''Job/file not found''), s)"
  | (found) job where "findById i (jobs s) = Some job" "has_path (file_path job)"
      "runAnalysis_start i s = (Inr job, logged (started_event i) (set_status i Running s))"
proof (cases "findById i (jobs s)")
  case None
  then have "runAnalysis_start i s = (Inl (JsError ''Job/file not found''), s)"
    by (simp add: runAnalysis_start_def)
  then show ?thesis by (rule missing)
next
  case (Some job)
  show ?thesis
  proof (cases "has_path (file_path job)")
    case True
    with Some runAnalysis_start_found[of i s job] show ?thesis using found by blast
  next
    case False
    with Some have "runAnalysis_start i s = (Inl (JsError ''Job/file not found''), s)"
      by (simp add: runAnalysis_start_def)
    then show ?thesis by (rule missing)
  qed
qed

lemma runCleaning_start_found:
  "findById i (jobs s) = Some job \<Longrightarrow> has_path (file_path job) \<Longrightarrow>
   runCleaning_start i opts s
     = (Inr job, logged (cleaning_started_event i opts) (set_status i Cleaning s))"
  by (simp add: runCleaning_start_def cleaning_started_event_def)

lemma runCleaning_start_cases:
  obtains (missing) "runCleaning_start i opts s = (Inl (JsError ''Job/file not found''), s)"
  | (found) job where "findById i (jobs s) = Some job" "has_path (file_path job)"
      "runCleaning_start i opts s
         = (Inr job, logged (cleaning_started_event i opts) (set_status i Cleaning s))"
proof (cases "findById i (jobs s)")
  case None
  then have "runCleaning_start i opts s = (Inl (JsError ''Job/file not found''), s)"
    by (simp add: runCleaning_start_def)
  then show ?thesis by (rule missing)
next
  case (Some job)
  show ?thesis
  proof (cases "has_path (file_path job)")
    case True
    with Some runCleaning_start_found[of i s job opts] show ?thesis using found by blast
  next
    case False
    with Some have "runCleaning_start i opts s = (Inl (JsError ''Job/file not found''), s)"
      by (simp add: runCleaning_start_def)
    then show ?thesis by (rule missing)
  qed
qed



subsection \<open>The analysis after the worker call\<close>

lemma analysis_try_answer:
  assumes "fetch_with_timeout ANALYSIS_TIMEOUT_MS (w ''/internal/analyze'' (analysis_request i job))
             = Inr (code, Inr data)"
      and "response_ok code"
  shows "analysis_try w i job s =
           (if accepted data then (Inr (), analysis_success i data s)
            else (Inl (status_error data ''Python analysis failed''), s))"
  using assms
  by (simp add: analysis_try_def accepted_def nullish_def js_prop_def analysis_success_def Let_def
        status_error_def analysis_completed_event_def)

lemma analysis_try_cases:
  obtains (threw) e where "analysis_try w i job s = (Inl e, s)"
  | (ok) code data where
      "fetch_with_timeout ANALYSIS_TIMEOUT_MS (w ''/internal/analyze'' (analysis_request i job))
         = Inr (code, Inr data)"
      "response_ok code" "accepted data"
      "analysis_try w i job s = (Inr (), analysis_success i data s)"
proof (cases "fetch_with_timeout ANALYSIS_TIMEOUT_MS (w ''/internal/analyze'' (analysis_request i job))")
  case (Inl e)
  then have "analysis_try w i job s = (Inl e, s)" by (simp add: analysis_try_def)
  then show ?thesis by (rule threw)
next
  case (Inr cb)
  obtain code body where cb: "cb = (code, body)" by (cases cb)
  show ?thesis
  proof (cases "response_ok code")
    case False
    with Inr cb have "analysis_try w i job s
        = (Inl (JsError (''Python service returned HTTP '' @ show_nat code)), s)"
      by (simp add: analysis_try_def)
    then show ?thesis by (rule threw)
  next
    case True
    show ?thesis
    proof (cases body)
      case (Inl msg)
      with Inr cb True have "analysis_try w i job s = (Inl (JsError msg), s)"
        by (simp add: analysis_try_def)
      then show ?thesis by (rule threw)
    next
      case (Inr data)
      with \<open>fetch_with_timeout _ _ = Inr cb\<close> cb
      have f: "fetch_with_timeout ANALYSIS_TIMEOUT_MS (w ''/internal/analyze'' (analysis_request i job))
                 = Inr (code, Inr data)" by simp
      show ?thesis
      proof (cases "accepted data")
        case True
        with analysis_try_answer[of w i job code data s] f \<open>response_ok code\<close>
        have "analysis_try w i job s = (Inr (), analysis_success i data s)" by simp
        with f \<open>response_ok code\<close> True show ?thesis by (rule ok)
      next
        case False
        with analysis_try_answer[of w i job code data s] f \<open>response_ok code\<close>
        have "\<exists>e. analysis_try w i job s = (Inl e, s)" by simp
        then show ?thesis using threw by blast
      qed
    qed
  qed
qed


lemma runAnalysis_finish_threw:
  "analysis_try w i job s = (Inl e, s') \<Longrightarrow>
   runAnalysis_finish w i job s = (Inl e, logged (failed_event i e) (set_status i Failed s'))"
  by (simp add: runAnalysis_finish_def failed_event_def)

lemma runAnalysis_finish_cases:
  obtains (threw) e where
      "analysis_try w i job s = (Inl e, s)"
      "runAnalysis_finish w i job s = (Inl e, logged (failed_event i e) (set_status i Failed s))"
  | (ok) code data where
      "fetch_with_timeout ANALYSIS_TIMEOUT_MS (w ''/internal/analyze'' (analysis_request i job))
         = Inr (code, Inr data)"
      "response_ok code" "accepted data"
      "runAnalysis_finish w i job s = (Inr (), analysis_success i data s)"
proof (cases rule: analysis_try_cases[of w i job s])
  case (threw e)
  from threw runAnalysis_finish_threw[OF threw] show ?thesis by (rule that(1))
next
  case (ok code data)
  then have "runAnalysis_finish w i job s = (Inr (), analysis_success i data s)"
    by (simp add: runAnalysis_finish_def)
  with ok(1-3) show ?thesis by (rule that(2))
qed

lemma analysis_success_facts:
  "status_of i (analysis_success i data s) = (if i \<in> j_id ` set (jobs s) then Some Completed else None)"
  "audit_log (analysis_success i data s) = audit_log s @ [analysis_completed_event i data]"
  "analysis_results (analysis_success i data s) = upsert_analysis i data (analysis_results s)"
  "cleaning_results (analysis_success i data s) = cleaning_results s"
  "map j_id (jobs (analysis_success i data s)) = map j_id (jobs s)"
proof -
  have "status_of i (set_status i Completed (s\<lparr>analysis_results := upsert_analysis i data (analysis_results s)\<rparr>))
        = (if i \<in> j_id ` set (jobs s) then Some Completed else None)"
    by (simp add: status_of_set_status)
  then show "status_of i (analysis_success i data s) = (if i \<in> j_id ` set (jobs s) then Some Completed else None)"
    by (simp add: analysis_success_def)
  show "audit_log (analysis_success i data s) = audit_log s @ [analysis_completed_event i data]"
    by (simp add: analysis_success_def)
  show "analysis_results (analysis_success i data s) = upsert_analysis i data (analysis_results s)"
    by (simp add: analysis_success_def)
  show "cleaning_results (analysis_success i data s) = cleaning_results s"
    by (simp add: analysis_success_def)
  show "map j_id (jobs (analysis_success i data s)) = map j_id (jobs s)"
    by (simp add: analysis_success_def)
qed



subsection \<open>The cleaning after the worker call\<close>

lemma cleaning_try_answer:
  assumes "fetch_with_timeout CLEANING_TIMEOUT_MS (w ''/internal/clean'' (cleaning_request i job opts))
             = Inr (code, Inr data)"
      and "response_ok code"
  shows "cleaning_try w i opts job s =
           (if \<not> accepted data then (Inl (status_error data ''Python cleaning failed''), s)
            else case castString (field data ''cleaned_file_path'') of
                   None \<Rightarrow>
                     (Inl (cast_error (field data ''cleaned_file_path'') ''cleaned_file_path''),
                      s\<lparr>cleaning_results := upsert_cleaning i opts data (cleaning_results s)\<rparr>)
                 | Some v \<Rightarrow>
                    (case iterate (field data ''rules_applied'') of
                       Inl e \<Rightarrow> (Inl e, cleaning_stored i opts data v s)
                     | Inr rs \<Rightarrow>
                        if \<not> list_all loggable rs then
                          (Inl jsonb_error, rules_logged i rs (cleaning_stored i opts data v s))
                        else
                          (case js_prop (field data ''summary'') ''rows_removed'' of
                             Inl e \<Rightarrow> (Inl e, rules_logged i rs (cleaning_stored i opts data v s))
                           | Inr removed \<Rightarrow>
                               (Inr (), cleaning_success i opts data v rs removed s))))"
proof (cases "accepted data")
  case False
  then have "cleaning_try w i opts job s = (Inl (status_error data ''Python cleaning failed''), s)"
    using assms
    by (auto simp add: cleaning_try_def accepted_def nullish_def js_prop_def status_error_def)
  with False show ?thesis by simp
next
  case True
  then have st: "js_prop data ''status'' = Inr (field data ''status'')"
    and nf: "field data ''status'' \<noteq> JStr ''failed''"
    by (simp_all add: accepted_def js_prop_def nullish_def)
  show ?thesis
    using assms True st nf
    by (simp add: cleaning_try_def cleaning_stored_def cleaning_success_def completed_event_def
          log_rules_eq Let_def
        split: sum.split option.split)
qed

lemma cleaning_stored_fields [simp]:
  "map j_id (jobs (cleaning_stored i opts data v s)) = map j_id (jobs s)"
  "analysis_results (cleaning_stored i opts data v s) = analysis_results s"
  "cleaning_results (cleaning_stored i opts data v s) = upsert_cleaning i opts data (cleaning_results s)"
  "audit_log (cleaning_stored i opts data v s) = audit_log s"
  "users (cleaning_stored i opts data v s) = users s"
  "files (cleaning_stored i opts data v s) = files s"
  by (simp_all add: cleaning_stored_def)

lemma status_of_None: "i \<notin> j_id ` set (jobs s) \<Longrightarrow> status_of i s = None"
  by (simp add: status_of_def findById_None_iff)

lemma status_of_cleaning_stored:
  "status_of k (cleaning_stored i opts data v s)
     = (if k = i \<and> i \<in> j_id ` set (jobs s) then Some Cleaned else status_of k s)"
proof (cases "k = i")
  case True
  have "status_of i (cleaning_stored i opts data v s)
          = status_of i (set_cleaned i v s)"
    by (simp add: cleaning_stored_def status_of_def set_cleaned_def)
  with True show ?thesis
    by (simp add: status_of_set_cleaned status_of_None)
next
  case False
  then have "status_of k (cleaning_stored i opts data v s) = status_of k s"
    by (simp add: cleaning_stored_def status_of_set_cleaned_other)
  with False show ?thesis by simp
qed

lemma cleaning_partial_facts:
  assumes "cleaning_partial i opts s s1"
  shows "map j_id (jobs s1) = map j_id (jobs s)"
    and "analysis_results s1 = analysis_results s"
    and "users s1 = users s" and "files s1 = files s"
    and "\<exists>rs. audit_log s1 = audit_log s @ map (rule_event i) rs"
    and "cleaning_results s1 = cleaning_results s
         \<or> (\<exists>data. cleaning_results s1 = upsert_cleaning i opts data (cleaning_results s))"
    and "status_of k s1 = status_of k s \<or> status_of k s1 = Some Cleaned"
proof -
  from assms consider (a) "s1 = s"
    | (b) data where "s1 = s\<lparr>cleaning_results := upsert_cleaning i opts data (cleaning_results s)\<rparr>"
    | (c) data v rs where "s1 = rules_logged i rs (cleaning_stored i opts data v s)"
    by cases blast+
  note cs = this
  show "map j_id (jobs s1) = map j_id (jobs s)" by (cases rule: cs) simp_all
  show "analysis_results s1 = analysis_results s" by (cases rule: cs) simp_all
  show "users s1 = users s" by (cases rule: cs) simp_all
  show "files s1 = files s" by (cases rule: cs) simp_all
  show "\<exists>rs. audit_log s1 = audit_log s @ map (rule_event i) rs"
  proof (cases rule: cs)
    case a
    then have "audit_log s1 = audit_log s @ map (rule_event i) []" by simp
    then show ?thesis by blast
  next
    case (b data)
    then have "audit_log s1 = audit_log s @ map (rule_event i) []" by simp
    then show ?thesis by blast
  next
    case (c data v rs)
    then have "audit_log s1 = audit_log s @ map (rule_event i) (takeWhile loggable rs)" by simp
    then show ?thesis by blast
  qed
  show "cleaning_results s1 = cleaning_results s
         \<or> (\<exists>data. cleaning_results s1 = upsert_cleaning i opts data (cleaning_results s))"
    by (cases rule: cs) auto
  show "status_of k s1 = status_of k s \<or> status_of k s1 = Some Cleaned"
    by (cases rule: cs) (simp_all add: status_of_cleaning_stored)
qed

lemma cleaning_try_cases:
  obtains (threw) e s1 where
      "cleaning_try w i opts job s = (Inl e, s1)"
      "cleaning_partial i opts s s1"
  | (ok) code data v rs removed where
      "fetch_with_timeout CLEANING_TIMEOUT_MS (w ''/internal/clean'' (cleaning_request i job opts))
         = Inr (code, Inr data)"
      "response_ok code" "accepted data"
      "castString (field data ''cleaned_file_path'') = Some v"
      "iterate (field data ''rules_applied'') = Inr rs"
      "list_all loggable rs"
      "js_prop (field data ''summary'') ''rows_removed'' = Inr removed"
      "cleaning_try w i opts job s = (Inr (), cleaning_success i opts data v rs removed s)"
proof (cases "fetch_with_timeout CLEANING_TIMEOUT_MS (w ''/internal/clean'' (cleaning_request i job opts))")
  case (Inl e)
  then have "cleaning_try w i opts job s = (Inl e, s)" by (simp add: cleaning_try_def)
  then show ?thesis using threw[of e s] by (simp add: cleaning_partial.nothing)
next
  case (Inr cb)
  obtain code body where cb: "cb = (code, body)" by (cases cb)
  show ?thesis
  proof (cases "response_ok code")
    case False
    with Inr cb have "cleaning_try w i opts job s
        = (Inl (JsError (''Python service returned HTTP '' @ show_nat code)), s)"
      by (simp add: cleaning_try_def)
    then show ?thesis using threw[of _ s] by (simp add: cleaning_partial.nothing)
  next
    case True
    show ?thesis
    proof (cases body)
      case (Inl msg)
      with Inr cb True have "cleaning_try w i opts job s = (Inl (JsError msg), s)"
        by (simp add: cleaning_try_def)
      then show ?thesis using threw[of _ s] by (simp add: cleaning_partial.nothing)
    next
      case (Inr data)
      with \<open>fetch_with_timeout _ _ = Inr cb\<close> cb
      have f: "fetch_with_timeout CLEANING_TIMEOUT_MS (w ''/internal/clean'' (cleaning_request i job opts))
                 = Inr (code, Inr data)" by simp
      note ans = cleaning_try_answer[of w i job opts code data s, OF f True]
      show ?thesis
      proof (cases "accepted data")
        case False
        with ans
        have "cleaning_try w i opts job s = (Inl (status_error data ''Python cleaning failed''), s)"
          by simp
        then show ?thesis using threw[of _ s] by (simp add: cleaning_partial.nothing)
      next
        case acc: True
        show ?thesis
        proof (cases "castString (field data ''cleaned_file_path'')")
          case None
          with ans acc
          have "cleaning_try w i opts job s
                  = (Inl (cast_error (field data ''cleaned_file_path'') ''cleaned_file_path''),
                     s\<lparr>cleaning_results := upsert_cleaning i opts data (cleaning_results s)\<rparr>)"
            by simp
          moreover have "cleaning_partial i opts s
                  (s\<lparr>cleaning_results := upsert_cleaning i opts data (cleaning_results s)\<rparr>)"
            by (rule cleaning_partial.stored)
          ultimately show ?thesis by (rule threw)
        next
          case cp: (Some v)
          have part: "cleaning_partial i opts s (rules_logged i rs (cleaning_stored i opts data v s))" for rs
            by (rule cleaning_partial.marked)
          show ?thesis
          proof (cases "iterate (field data ''rules_applied'')")
            case (Inl e)
            with ans acc cp
            have "cleaning_try w i opts job s = (Inl e, cleaning_stored i opts data v s)" by simp
            then show ?thesis using threw[of e "cleaning_stored i opts data v s"] part[of "[]"]
              by simp
          next
            case it: (Inr rs)
            show ?thesis
            proof (cases "list_all loggable rs")
              case False
              with ans acc cp it
              have "cleaning_try w i opts job s
                      = (Inl jsonb_error, rules_logged i rs (cleaning_stored i opts data v s))"
                by simp
              then show ?thesis using part[of rs] by (rule threw)
            next
              case lg: True
              show ?thesis
              proof (cases "js_prop (field data ''summary'') ''rows_removed''")
                case (Inl e)
                with ans acc cp it lg
                have "cleaning_try w i opts job s
                        = (Inl e, rules_logged i rs (cleaning_stored i opts data v s))"
                  by simp
                then show ?thesis using part[of rs] by (rule threw)
              next
                case (Inr removed)
                with ans acc cp it lg
                have "cleaning_try w i opts job s
                        = (Inr (), cleaning_success i opts data v rs removed s)"
                  by simp
                with f True acc cp it lg Inr show ?thesis by (rule ok)
              qed
            qed
          qed
        qed
      qed
    qed
  qed
qed


lemma runCleaning_finish_threw:
  "cleaning_try w i opts job s = (Inl e, s') \<Longrightarrow>
   runCleaning_finish w i opts job s
     = (Inl e, logged (error_event i e) (set_status i Completed s'))"
  by (simp add: runCleaning_finish_def error_event_def)

lemma runCleaning_finish_cases:
  obtains (threw) e s1 where
      "cleaning_try w i opts job s = (Inl e, s1)"
      "runCleaning_finish w i opts job s
         = (Inl e, logged (error_event i e) (set_status i Completed s1))"
      "cleaning_partial i opts s s1"
  | (ok) code data v rs removed where
      "fetch_with_timeout CLEANING_TIMEOUT_MS (w ''/internal/clean'' (cleaning_request i job opts))
         = Inr (code, Inr data)"
      "response_ok code" "accepted data"
      "castString (field data ''cleaned_file_path'') = Some v"
      "iterate (field data ''rules_applied'') = Inr rs"
      "list_all loggable rs"
      "js_prop (field data ''summary'') ''rows_removed'' = Inr removed"
      "runCleaning_finish w i opts job s = (Inr (), cleaning_success i opts data v rs removed s)"
proof (cases rule: cleaning_try_cases[of w i opts job s])
  case (threw e s1)
  from threw(1) runCleaning_finish_threw[OF threw(1)] threw(2) show ?thesis by (rule that(1))
next
  case (ok code data v rs removed)
  then have "runCleaning_finish w i opts job s = (Inr (), cleaning_success i opts data v rs removed s)"
    by (simp add: runCleaning_finish_def)
  with ok(1-7) show ?thesis by (rule that(2))
qed

lemma takeWhile_all_id: "list_all P xs \<Longrightarrow> takeWhile P xs = xs"
  by (induction xs) simp_all

lemma cleaning_success_facts:
  "status_of i (cleaning_success i opts data v rs removed s)
     = (if i \<in> j_id ` set (jobs s) then Some Cleaned else None)"
  "list_all loggable rs \<Longrightarrow>
   audit_log (cleaning_success i opts data v rs removed s)
     = audit_log s @ map (rule_event i) rs @ [completed_event i data removed]"
  "cleaning_results (cleaning_success i opts data v rs removed s)
     = upsert_cleaning i opts data (cleaning_results s)"
  "analysis_results (cleaning_success i opts data v rs removed s) = analysis_results s"
  "map j_id (jobs (cleaning_success i opts data v rs removed s)) = map j_id (jobs s)"
proof -
  show "status_of i (cleaning_success i opts data v rs removed s)
     = (if i \<in> j_id ` set (jobs s) then Some Cleaned else None)"
    by (simp add: cleaning_success_def status_of_cleaning_stored status_of_None)
  show "audit_log (cleaning_success i opts data v rs removed s)
     = audit_log s @ map (rule_event i) rs @ [completed_event i data removed]"
    if "list_all loggable rs"
    using that by (simp add: cleaning_success_def takeWhile_all_id)
  show "cleaning_results (cleaning_success i opts data v rs removed s)
     = upsert_cleaning i opts data (cleaning_results s)"
    by (simp add: cleaning_success_def)
  show "analysis_results (cleaning_success i opts data v rs removed s) = analysis_results s"
    by (simp add: cleaning_success_def)
  show "map j_id (jobs (cleaning_success i opts data v rs removed s)) = map j_id (jobs s)"
    by (simp add: cleaning_success_def)
qed



section \<open>Failure and timeout of a delegation\<close>

lemmas store_defs = two_jobs_def one_job_def alices_job_def bobs_job_def




section \<open>The audit events of a delegation\<close>

text \<open>Rules that are objects are taken by the audit log; a rule given as its bare name is not.\<close>

lemma object_rule_loggable [simp]: "loggable (JObj kvs)"
  by (simp add: loggable_def jsonb_accepts_def)

lemma named_rule_refused: "\<not> loggable (JStr ''drop_duplicates'')"
  unfolding loggable_def jsonb_accepts_def by code_simp

text \<open>
  A cleaning whose worker answers with the rules' names: the result is stored and the job
  marked \<open>cleaned\<close>, then the first \<open>RULE_APPLIED\<close> insert is refused, and the task ends as
  a failure with no rule event.
\<close>

lemma named_rules_cleaning_fails:
  "fst (runCleaning named_rules_worker ''j1'' (JObj []) two_jobs) = Inl jsonb_error
   \<and> status_of ''j1'' (snd (runCleaning named_rules_worker ''j1'' (JObj []) two_jobs)) = Some Completed
   \<and> map event_type (audit_log (snd (runCleaning named_rules_worker ''j1'' (JObj []) two_jobs)))
       = [''CLEANING_STARTED'', ''ERROR'']
   \<and> map cr_job_id (cleaning_results (snd (runCleaning named_rules_worker ''j1'' (JObj []) two_jobs)))
       = [''j1'']"
proof -
  have "list_all loggable [JStr ''drop_duplicates'', JStr ''trim''] = False"
    "takeWhile loggable [JStr ''drop_duplicates'', JStr ''trim''] = []"
    using named_rule_refused by simp_all
  then show ?thesis
    by (simp add: runAnalysis_def runCleaning_def runCleaning_start_def runCleaning_finish_def
          cleaning_try_def findById_def has_path_def path_val_def fetch_with_timeout_def
          CLEANING_TIMEOUT_MS_def HEADERS_TIMEOUT_MS_def response_ok_def js_prop_def
          set_status_def set_cleaned_def logged_def upsert_cleaning_def cleaning_doc_def
          castString_def castMixedArray_def iterate_def js_or_def nullish_def Let_def
          status_of_def error_event_def log_rules_eq rules_logged_def jsonb_error_def
          store_defs named_rules_worker_def named_rules_response_def)
qed



section \<open>Acceptance of worker responses\<close>








section \<open>Event types\<close>

lemma event_kind_literals [simp]:
  "event_kind ''JOB_CREATED'' = Some JobCreated"
  "event_kind ''FILE_UPLOADED'' = Some FileReceived"
  "event_kind ''ANALYSIS_ENQUEUED'' = Some OperationEnqueued"
  "event_kind ''CLEANING_ENQUEUED'' = Some OperationEnqueued"
  "event_kind ''ANALYSIS_STARTED'' = Some OperationStarted"
  "event_kind ''CLEANING_STARTED'' = Some OperationStarted"
  "event_kind ''RULE_APPLIED'' = Some RuleApplied"
  "event_kind ''ANALYSIS_COMPLETED'' = Some OperationCompleted"
  "event_kind ''CLEANING_COMPLETED'' = Some OperationCompleted"
  "event_kind ''ANALYSIS_FAILED'' = Some OperationFailed"
  "event_kind ''ERROR'' = Some OperationFailed"
  "event_kind ''JOB_DELETED'' = Some JobDeleted"
  by (simp_all add: event_kind_def)

lemma appends_known_same: "audit_log s' = audit_log s \<Longrightarrow> appends_known s s'"
  by (simp add: appends_known_def known_events_def)

lemma appends_known_list:
  "audit_log s' = audit_log s @ es \<Longrightarrow> known_events es \<Longrightarrow> appends_known s s'"
  by (auto simp: appends_known_def)

lemma appends_known_trans:
  "appends_known s s' \<Longrightarrow> appends_known s' s'' \<Longrightarrow> appends_known s s''"
  by (auto simp: appends_known_def known_events_def)

lemma appends_known_logged:
  "audit_log s' = audit_log s \<Longrightarrow> event_kind (event_type e) \<noteq> None \<Longrightarrow>
   appends_known s (logged e s')"
  by (simp add: appends_known_def known_events_def)

lemma appends_known_logged2:
  "audit_log s' = audit_log s \<Longrightarrow> event_kind (event_type e) \<noteq> None \<Longrightarrow>
   event_kind (event_type e') \<noteq> None \<Longrightarrow> appends_known s (logged e' (logged e s'))"
  by (simp add: appends_known_def known_events_def)

lemma known_rule_events: "known_events (map (rule_event i) rs)"
  by (simp add: known_events_def rule_event_def)

lemma known_deleted_events: "known_events (map (deleted_event b) is)"
  by (simp add: known_events_def deleted_event_def)

lemma known_events_append: "known_events (xs @ ys) \<longleftrightarrow> known_events xs \<and> known_events ys"
  by (auto simp: known_events_def)

lemma task_event_types [simp]:
  "event_type (started_event i) = ''ANALYSIS_STARTED''"
  "event_type (failed_event i e) = ''ANALYSIS_FAILED''"
  "event_type (analysis_completed_event i data) = ''ANALYSIS_COMPLETED''"
  "event_type (cleaning_started_event i opts) = ''CLEANING_STARTED''"
  "event_type (rule_event i r) = ''RULE_APPLIED''"
  "event_type (completed_event i data removed) = ''CLEANING_COMPLETED''"
  "event_type (error_event i e) = ''ERROR''"
  by (simp_all add: started_event_def failed_event_def analysis_completed_event_def
        cleaning_started_event_def rule_event_def completed_event_def error_event_def)

lemma snd_case_result [simp]:
  "snd (case p of (Inl e, s) \<Rightarrow> (f e, s) | (Inr v, s) \<Rightarrow> (g v, s)) = snd p"
  by (cases p; cases "fst p") auto

lemma appends_known_log_deleted:
  "audit_log s' = audit_log s \<Longrightarrow> appends_known s (snd (log_deleted b is s'))"
  by (rule appends_known_list[where es = "map (deleted_event b) is"])
     (simp_all add: log_deleted_eq known_deleted_events)

lemma ak_upload: "appends_known s (snd (upload u i f s))"
proof (cases f)
  case None
  then show ?thesis by (simp add: upload_def appends_known_same)
next
  case (Some up)
  show ?thesis
  proof (cases "i \<in> set (map j_id (jobs s))")
    case True
    with Some show ?thesis by (simp add: upload_def Let_def appends_known_same)
  next
    case False
    with Some show ?thesis
      by (simp add: upload_def Let_def appends_known_logged2)
  qed
qed

lemma ak_post_analyze: "appends_known s (fst (snd (post_analyze u i s)))"
  by (cases "findOwnedJob i u s")
     (simp_all add: post_analyze_def appends_known_same appends_known_logged)

lemma ak_post_clean: "appends_known s (fst (snd (post_clean u i b s)))"
  by (cases "findOwnedJob i u s")
     (simp_all add: post_clean_def Let_def appends_known_same appends_known_logged)

lemma ak_delete: "appends_known s (snd (delete_jobs u ids s))"
proof (cases ids)
  case None
  then show ?thesis by (simp add: delete_jobs_def appends_known_same)
next
  case (Some xs)
  then show ?thesis
    by (simp add: delete_jobs_def Let_def appends_known_same appends_known_log_deleted)
qed

lemma ak_analysis_start: "appends_known s (snd (runAnalysis_start i s))"
  by (cases rule: runAnalysis_start_cases[of i s])
     (simp_all add: appends_known_same appends_known_logged)

lemma ak_cleaning_start: "appends_known s (snd (runCleaning_start i opts s))"
  by (cases rule: runCleaning_start_cases[of i opts s])
     (simp_all add: appends_known_same appends_known_logged)

lemma ak_analysis_finish: "appends_known s (snd (runAnalysis_finish w i job s))"
proof (cases rule: runAnalysis_finish_cases[of w i job s])
  case (threw e)
  then show ?thesis by (simp add: appends_known_logged)
next
  case (ok code data)
  have "appends_known s (analysis_success i data s)"
    by (rule appends_known_list[where es = "[analysis_completed_event i data]"])
       (simp_all add: analysis_success_facts known_events_def)
  with ok show ?thesis by simp
qed

lemma ak_cleaning_finish: "appends_known s (snd (runCleaning_finish w i opts job s))"
proof (cases rule: runCleaning_finish_cases[of w i opts job s])
  case (threw e s1)
  from cleaning_partial_facts(5)[OF threw(3)]
  obtain rs where a: "audit_log s1 = audit_log s @ map (rule_event i) rs" by blast
  have k: "known_events (map (rule_event i) rs @ [error_event i e])"
    by (simp add: known_events_append known_rule_events) (simp add: known_events_def)
  have "appends_known s (logged (error_event i e) (set_status i Completed s1))"
    by (rule appends_known_list[OF _ k]) (simp add: a)
  with threw(2) show ?thesis by simp
next
  case (ok code data v rs removed)
  have k: "known_events (map (rule_event i) rs @ [completed_event i data removed])"
    by (simp add: known_events_append known_rule_events) (simp add: known_events_def)
  have "appends_known s (cleaning_success i opts data v rs removed s)"
    by (rule appends_known_list[OF _ k]) (simp add: cleaning_success_facts ok(6))
  with ok(8) show ?thesis by simp
qed

lemma ak_runAnalysis: "appends_known s (snd (runAnalysis w i s))"
proof (cases rule: runAnalysis_start_cases[of i s])
  case missing
  then show ?thesis by (simp add: runAnalysis_def appends_known_same)
next
  case (found job)
  have "appends_known s (snd (runAnalysis_start i s))" by (rule ak_analysis_start)
  moreover have "appends_known (snd (runAnalysis_start i s))
                   (snd (runAnalysis_finish w i job (snd (runAnalysis_start i s))))"
    by (rule ak_analysis_finish)
  ultimately show ?thesis using found(3) by (simp add: runAnalysis_def appends_known_trans)
qed

lemma ak_runCleaning: "appends_known s (snd (runCleaning w i opts s))"
proof (cases rule: runCleaning_start_cases[of i opts s])
  case missing
  then show ?thesis by (simp add: runCleaning_def appends_known_same)
next
  case (found job)
  have "appends_known s (snd (runCleaning_start i opts s))" by (rule ak_cleaning_start)
  moreover have "appends_known (snd (runCleaning_start i opts s))
                   (snd (runCleaning_finish w i opts job (snd (runCleaning_start i opts s))))"
    by (rule ak_cleaning_finish)
  ultimately show ?thesis using found(3) by (simp add: runCleaning_def appends_known_trans)
qed

text \<open>
  Claim C7. Every operation only appends to the audit log, and every event it appends has
  a type that stands for one of the eight kinds of the closed set.
\<close>

theorem audit_event_types_closed:
  "\<exists>es. audit_log (exec op s) = audit_log s @ es
        \<and> (\<forall>e \<in> set es. event_kind (event_type e) \<noteq> None)"
proof -
  have "appends_known s (exec op s)"
    by (cases op)
       (simp_all add: ak_upload ak_post_analyze ak_post_clean ak_delete ak_runAnalysis
          ak_analysis_start ak_analysis_finish ak_runCleaning ak_cleaning_start ak_cleaning_finish)
  then show ?thesis by (simp add: appends_known_def known_events_def)
qed

theorem audit_event_types_closed_witness:
  "(\<exists>es. audit_log (exec (OpRunCleaning failing_worker ''j1'' (JObj [])) two_jobs)
           = audit_log two_jobs @ es
         \<and> (\<forall>e \<in> set es. event_kind (event_type e) \<noteq> None))
   \<and> map event_type (audit_log (exec (OpRunCleaning failing_worker ''j1'' (JObj [])) two_jobs))
       = [''CLEANING_STARTED'', ''ERROR'']
   \<and> map (\<lambda>e. event_kind (event_type e))
         (audit_log (exec (OpRunCleaning failing_worker ''j1'' (JObj [])) two_jobs))
       = [Some OperationStarted, Some OperationFailed]"
proof -
  have e: "map event_type (audit_log (exec (OpRunCleaning failing_worker ''j1'' (JObj [])) two_jobs))
       = [''CLEANING_STARTED'', ''ERROR'']"
    by (simp add: run_defs store_defs failing_worker_def)
  have "map (\<lambda>e. event_kind (event_type e))
         (audit_log (exec (OpRunCleaning failing_worker ''j1'' (JObj [])) two_jobs))
       = map event_kind
           (map event_type (audit_log (exec (OpRunCleaning failing_worker ''j1'' (JObj [])) two_jobs)))"
    by (simp add: comp_def)
  then have "map (\<lambda>e. event_kind (event_type e))
         (audit_log (exec (OpRunCleaning failing_worker ''j1'' (JObj [])) two_jobs))
       = map event_kind [''CLEANING_STARTED'', ''ERROR'']"
    by (simp only: e)
  with e audit_event_types_closed[of "OpRunCleaning failing_worker ''j1'' (JObj [])" two_jobs]
  show ?thesis by simp
qed

section \<open>Status writes\<close>




























section \<open>Result stores\<close>

lemma ru_cong:
  "analysis_results s' = analysis_results s \<Longrightarrow> cleaning_results s' = cleaning_results s \<Longrightarrow>
   results_unique s \<Longrightarrow> results_unique s'"
  by (simp add: results_unique_def)

lemma ru_upsert_analysis:
  "analysis_results s' = upsert_analysis i data (analysis_results s) \<Longrightarrow>
   cleaning_results s' = cleaning_results s \<Longrightarrow> results_unique s \<Longrightarrow> results_unique s'"
  using replaceOne_distinct[of ar_job_id "analysis_doc i data" i "analysis_results s"]
  by (simp add: results_unique_def upsert_analysis_def analysis_doc_def)

lemma ru_upsert_cleaning:
  "cleaning_results s' = upsert_cleaning i opts data (cleaning_results s) \<Longrightarrow>
   analysis_results s' = analysis_results s \<Longrightarrow> results_unique s \<Longrightarrow> results_unique s'"
  using replaceOne_distinct[of cr_job_id "cleaning_doc i opts data" i "cleaning_results s"]
  by (simp add: results_unique_def upsert_cleaning_def cleaning_doc_def)

lemma ru_upload: "results_unique s \<Longrightarrow> results_unique (snd (upload u i f s))"
  by (cases f) (auto simp: upload_def Let_def results_unique_def)

lemma ru_post_analyze: "results_unique s \<Longrightarrow> results_unique (fst (snd (post_analyze u i s)))"
  by (cases "findOwnedJob i u s") (simp_all add: post_analyze_def results_unique_def)

lemma ru_post_clean: "results_unique s \<Longrightarrow> results_unique (fst (snd (post_clean u i b s)))"
  by (cases "findOwnedJob i u s") (simp_all add: post_clean_def Let_def results_unique_def)

lemma ru_delete: "results_unique s \<Longrightarrow> results_unique (snd (delete_jobs u ids s))"
  by (cases ids)
     (simp_all add: delete_jobs_def Let_def results_unique_def distinct_map_filter log_deleted_eq)

lemma ru_analysis_start: "results_unique s \<Longrightarrow> results_unique (snd (runAnalysis_start i s))"
  by (cases rule: runAnalysis_start_cases[of i s]) (simp_all add: results_unique_def)

lemma ru_cleaning_start: "results_unique s \<Longrightarrow> results_unique (snd (runCleaning_start i opts s))"
  by (cases rule: runCleaning_start_cases[of i opts s]) (simp_all add: results_unique_def)

lemma ru_analysis_finish:
  assumes "results_unique s"
  shows "results_unique (snd (runAnalysis_finish w i job s))"
proof (cases rule: runAnalysis_finish_cases[of w i job s])
  case (threw e)
  with assms show ?thesis by (simp add: results_unique_def)
next
  case (ok code data)
  have "results_unique (analysis_success i data s)"
    by (rule ru_upsert_analysis[OF _ _ assms, of _ i data]) (simp_all add: analysis_success_def)
  with ok show ?thesis by simp
qed

lemma ru_cleaning_finish:
  assumes "results_unique s"
  shows "results_unique (snd (runCleaning_finish w i opts job s))"
proof (cases rule: runCleaning_finish_cases[of w i opts job s])
  case (threw e s1)
  note pf = cleaning_partial_facts[OF threw(3)]
  have "results_unique s1"
  proof (cases "cleaning_results s1 = cleaning_results s")
    case True
    from pf(2) True assms show ?thesis by (rule ru_cong)
  next
    case False
    with pf(6) obtain data where "cleaning_results s1 = upsert_cleaning i opts data (cleaning_results s)"
      by blast
    then show ?thesis using pf(2) assms by (rule ru_upsert_cleaning)
  qed
  with threw(2) show ?thesis by (simp add: results_unique_def)
next
  case (ok code data v rs removed)
  have "results_unique (cleaning_success i opts data v rs removed s)"
    by (rule ru_upsert_cleaning[OF _ _ assms, of _ i opts data])
       (simp_all add: cleaning_success_def)
  with ok show ?thesis by simp
qed

lemma ru_runAnalysis: "results_unique s \<Longrightarrow> results_unique (snd (runAnalysis w i s))"
proof (cases rule: runAnalysis_start_cases[of i s])
  case missing
  assume "results_unique s"
  with missing show ?thesis by (simp add: runAnalysis_def)
next
  case (found job)
  assume u: "results_unique s"
  have "results_unique (snd (runAnalysis_start i s))" using u by (rule ru_analysis_start)
  then have "results_unique (snd (runAnalysis_finish w i job (snd (runAnalysis_start i s))))"
    by (rule ru_analysis_finish)
  with found(3) show ?thesis by (simp add: runAnalysis_def)
qed

lemma ru_runCleaning: "results_unique s \<Longrightarrow> results_unique (snd (runCleaning w i opts s))"
proof (cases rule: runCleaning_start_cases[of i opts s])
  case missing
  assume "results_unique s"
  with missing show ?thesis by (simp add: runCleaning_def)
next
  case (found job)
  assume u: "results_unique s"
  have "results_unique (snd (runCleaning_start i opts s))" using u by (rule ru_cleaning_start)
  then have "results_unique (snd (runCleaning_finish w i opts job (snd (runCleaning_start i opts s))))"
    by (rule ru_cleaning_finish)
  with found(3) show ?thesis by (simp add: runCleaning_def)
qed

lemma ru_exec: "results_unique s \<Longrightarrow> results_unique (exec op s)"
  by (cases op)
     (simp_all add: ru_upload ru_post_analyze ru_post_clean ru_delete ru_runAnalysis
        ru_analysis_start ru_analysis_finish ru_runCleaning ru_cleaning_start ru_cleaning_finish)

text \<open>
  Claim C6. In result stores that hold at most one record per job id, upserting a result
  for a job id twice in sequence, as \<open>runAnalysis\<close> and \<open>runCleaning\<close> do, leaves exactly
  one record for that job id, which is the document built from the second payload, and the
  store still holds at most one record per job id. This holds for the analysis results
  and for the cleaning results. Every operation of the system keeps both stores at one
  record per job id at most, and the empty stores are so.
\<close>

theorem upsert_twice_single_record:
  assumes "results_unique s"
  shows "filter (\<lambda>r. ar_job_id r = jobId)
           (upsert_analysis jobId d2 (upsert_analysis jobId d1 (analysis_results s)))
           = [analysis_doc jobId d2]
       \<and> distinct (map ar_job_id (upsert_analysis jobId d2 (upsert_analysis jobId d1 (analysis_results s))))
       \<and> filter (\<lambda>r. cr_job_id r = jobId)
            (upsert_cleaning jobId o2 c2 (upsert_cleaning jobId o1 c1 (cleaning_results s)))
           = [cleaning_doc jobId o2 c2]
       \<and> distinct (map cr_job_id (upsert_cleaning jobId o2 c2 (upsert_cleaning jobId o1 c1 (cleaning_results s))))
       \<and> results_unique (exec op s)
       \<and> results_unique empty_state"
proof -
  from assms have da: "distinct (map ar_job_id (analysis_results s))"
    and dc: "distinct (map cr_job_id (cleaning_results s))"
    by (simp_all add: results_unique_def)
  have a: "ar_job_id (analysis_doc jobId d) = jobId" for d by (simp add: analysis_doc_def)
  have c: "cr_job_id (cleaning_doc jobId o' d) = jobId" for o' d by (simp add: cleaning_doc_def)
  have d1: "distinct (map ar_job_id (upsert_analysis jobId d1 (analysis_results s)))"
    unfolding upsert_analysis_def using a da by (rule replaceOne_distinct)
  have e1: "distinct (map cr_job_id (upsert_cleaning jobId o1 c1 (cleaning_results s)))"
    unfolding upsert_cleaning_def using c dc by (rule replaceOne_distinct)
  have e: "results_unique empty_state" by (simp add: results_unique_def empty_state_def)
  show ?thesis
    using replaceOne_filter [of ar_job_id, OF a d1, of d2]
          replaceOne_distinct [of ar_job_id, OF a d1, of d2]
          replaceOne_filter [of cr_job_id, OF c e1, of o2 c2]
          replaceOne_distinct [of cr_job_id, OF c e1, of o2 c2]
          ru_exec[OF assms, of op] e
    by (simp add: upsert_analysis_def upsert_cleaning_def)
qed

theorem upsert_twice_single_record_witness:
  "results_unique two_jobs
   \<and> filter (\<lambda>r. ar_job_id r = ''j1'')
         (upsert_analysis ''j1'' (JObj [(''result'', JNum 2)])
            (upsert_analysis ''j1'' (JObj [(''result'', JNum 1)]) (analysis_results two_jobs)))
       = [\<lparr>ar_job_id = ''j1'', result = JNum 2, analysis_type = JStr ''in-memory''\<rparr>]
   \<and> map ar_job_id
         (upsert_analysis ''j1'' (JObj [(''result'', JNum 2)])
            (upsert_analysis ''j1'' (JObj [(''result'', JNum 1)]) (analysis_results two_jobs)))
       = [''j1'', ''j2'']
   \<and> filter (\<lambda>r. cr_job_id r = ''j1'')
         (upsert_cleaning ''j1'' (JObj []) (JObj [(''summary'', JNum 2)])
            (upsert_cleaning ''j1'' (JObj []) (JObj [(''summary'', JNum 1)]) (cleaning_results two_jobs)))
       = [\<lparr>cr_job_id = ''j1'', cr_mode = JStr ''auto'', rules_applied = JArr [], summary = JNum 2\<rparr>]
   \<and> results_unique (exec (OpRunAnalysis good_worker ''j1'') two_jobs)"
proof -
  have h: "results_unique two_jobs" by (simp add: results_unique_def two_jobs_def)
  from upsert_twice_single_record
         [OF h, where jobId = "''j1''" and ?d2.0 = "JObj [(''result'', JNum 2)]"
            and ?d1.0 = "JObj [(''result'', JNum 1)]" and ?o2.0 = "JObj []" and ?o1.0 = "JObj []"
            and ?c2.0 = "JObj [(''summary'', JNum 2)]" and ?c1.0 = "JObj [(''summary'', JNum 1)]"
            and op = "OpRunAnalysis good_worker ''j1''"] h
  show ?thesis
    by (simp add: analysis_doc_def cleaning_doc_def castString_def castMixedArray_def
          js_or_def opt_prop_def nullish_def two_jobs_def upsert_analysis_def upsert_cleaning_def)
qed

section \<open>Login\<close>

text \<open>
  With a password that is a string, a login for an email that no user has and a login
  for an email whose user's hash the password does not match get the same response.
\<close>

lemma login_string_password_same:
  assumes "find (\<lambda>d. Some (email d) = em) (users s1) = None"
      and "find (\<lambda>d. Some (email d) = em) (users s2) = Some d"
      and "\<not> bcrypt_match p (password_hash d)"
  shows "login bcrypt_match sign em (JStr p) s1 = login bcrypt_match sign em (JStr p) s2"
  using assms by (simp add: login_def comparePassword_def)

text \<open>
  Claim C10 fails on a password that is not a string. The request
  \<open>POST /login {"email": "bob@example.org", "password": 12345}\<close> is answered 401
  \<open>Invalid email or password\<close> when no user has that email; when a user has it, the
  handler calls \<open>bcrypt.compare\<close>, which rejects a candidate that is not a string, and
  the error handler answers 500 with the library's message. The number is not the
  user's password: the comparison does not return true. So the two responses, which
  the claim takes to be the same, differ, and the difference tells that the email is
  registered. The handler gives both rejections the same status and text, and misses
  the case of a password of another type.
\<close>

theorem login_reveals_registration:
  "find (\<lambda>d. Some (email d) = Some ''bob@example.org'') (users empty_state) = None
   \<and> find (\<lambda>d. Some (email d) = Some ''bob@example.org'') (users two_jobs)
       = Some \<lparr>ud_id = ''bob'', email = ''bob@example.org'', password_hash = ''h'', ud_role = ''user''\<rparr>
   \<and> comparePassword bcrypt_match (JNum 12345) ''h'' = Inl (JsError ''data and hash must be strings'')
   \<and> login bcrypt_match sign (Some ''bob@example.org'') (JNum 12345) empty_state
       = Json 401 (JObj [(''error'', JStr ''Invalid email or password'')])
   \<and> login bcrypt_match sign (Some ''bob@example.org'') (JNum 12345) two_jobs
       = Json 500 (JObj [(''error'', JStr ''Internal server error''),
                         (''details'', JStr ''data and hash must be strings'')])"
  by (simp add: login_def comparePassword_def has_path_def next_err_def
        empty_state_def two_jobs_def)

theorem login_reveals_registration_witness:
  "login (\<lambda>p h. p = h) (\<lambda>i r. i @ r) (Some ''bob@example.org'') (JNum 12345) empty_state
     = Json 401 (JObj [(''error'', JStr ''Invalid email or password'')])
   \<and> login (\<lambda>p h. p = h) (\<lambda>i r. i @ r) (Some ''bob@example.org'') (JNum 12345) two_jobs
     = Json 500 (JObj [(''error'', JStr ''Internal server error''),
                       (''details'', JStr ''data and hash must be strings'')])
   \<and> response_code (login (\<lambda>p h. p = h) (\<lambda>i r. i @ r) (Some ''bob@example.org'') (JNum 12345) empty_state)
       \<noteq> response_code (login (\<lambda>p h. p = h) (\<lambda>i r. i @ r) (Some ''bob@example.org'') (JNum 12345) two_jobs)"
  using login_reveals_registration[of "\<lambda>p h. p = h" "\<lambda>i r. i @ r"] by simp

end
